theory Spec2Isabelle
  imports Main "HOL-Library.Char_ord" "HOL-Library.List_Lexorder"
begin

section \<open>Strings as Go has them\<close>

text \<open>
  A Go string is a sequence of bytes; \<^typ>\<open>string\<close> is a list of 8-bit characters, so
  \<^const>\<open>length\<close> is Go's \<^verbatim>\<open>len\<close>. Paths use the Unix separator.
\<close>

definition HasPrefix :: "string \<Rightarrow> string \<Rightarrow> bool" where
  \<comment> \<open>strings.HasPrefix: len(s) >= len(prefix) && s[:len(prefix)] == prefix\<close>
  "HasPrefix s prefix = (length s \<ge> length prefix \<and> take (length prefix) s = prefix)"

definition HasSuffix :: "string \<Rightarrow> string \<Rightarrow> bool" where
  \<comment> \<open>strings.HasSuffix: len(s) >= len(suffix) && s[len(s)-len(suffix):] == suffix\<close>
  "HasSuffix s suffix =
     (length s \<ge> length suffix \<and> drop (length s - length suffix) s = suffix)"

definition SplitN2 :: "string \<Rightarrow> char \<Rightarrow> string list" where
  \<comment> \<open>strings.SplitN(s, sep, 2) for a one-byte separator: the text before the first
      separator and the text after it, or the whole string when there is none\<close>
  "SplitN2 s sep =
     (if sep \<in> set s
      then [takeWhile (\<lambda>c. c \<noteq> sep) s, tl (dropWhile (\<lambda>c. c \<noteq> sep) s)]
      else [s])"

section \<open>Diagnostics\<close>

datatype severity = Error | Warning

record fileVolumeID =
  datastoreID :: string
  contentType :: string
  fileName :: string

text \<open>
  The summary of a diagnostic. Messages built with \<^verbatim>\<open>%s\<close> and \<^verbatim>\<open>%d\<close> alone are
  kept as their text; a message that quotes an argument with \<^verbatim>\<open>%q\<close> or prints a
  list with \<^verbatim>\<open>%v\<close> keeps its arguments. A Go error is its text.
\<close>

datatype message =
    Text string
  | FileAlreadyExists string
  | ExistingFileOverwritten string
  | FailedToReadFileFrom string
  | ContentTypeNotSupported string string "string list"

datatype diagnostic = Diag severity message

type_synonym diagnostics = "diagnostic list"

fun is_error :: "diagnostic \<Rightarrow> bool" where
  "is_error (Diag Error m) = True"
| "is_error (Diag Warning m) = False"

definition HasError :: "diagnostics \<Rightarrow> bool" where
  "HasError ds = list_ex is_error ds"

definition FromErr :: "string option \<Rightarrow> diagnostics" where
  \<comment> \<open>diag.FromErr: no diagnostic for a nil error, else an error with the error's text\<close>
  "FromErr err = (case err of None \<Rightarrow> [] | Some e \<Rightarrow> [Diag Error (Text e)])"

definition Errorf :: "message \<Rightarrow> diagnostics" where
  "Errorf m = [Diag Error m]"

section \<open>Volume identifiers\<close>

definition String :: "fileVolumeID \<Rightarrow> string" where
  \<comment> \<open>fmt.Sprintf("%s:%s/%s", v.datastoreID, v.contentType, v.fileName)\<close>
  "String v = datastoreID v @ '':'' @ contentType v @ ''/'' @ fileName v"

definition unexpected_volume_id :: "string \<Rightarrow> string" where
  "unexpected_volume_id ident =
     ''unexpected format of ID ('' @ ident @
     ''), expected datastore_id:content_type/file_name''"

definition fileParseVolumeID :: "string \<Rightarrow> string + fileVolumeID" where
  "fileParseVolumeID ident =
     (case SplitN2 ident (CHR '':'') of
        [p0, p1] \<Rightarrow>
          if p0 = [] \<or> p1 = [] then Inl (unexpected_volume_id ident)
          else
            (case SplitN2 p1 (CHR ''/'') of
               [q0, q1] \<Rightarrow>
                 if q0 = [] \<or> q1 = [] then Inl (unexpected_volume_id ident)
                 else Inr \<lparr>datastoreID = p0, contentType = q0, fileName = q1\<rparr>
             | _ \<Rightarrow> Inl (unexpected_volume_id ident))
      | _ \<Rightarrow> Inl (unexpected_volume_id ident))"

definition unexpected_import_id :: "string \<Rightarrow> string" where
  "unexpected_import_id ident =
     ''unexpected format of ID ('' @ ident @
     ''), expected node/datastore_id:content_type/file_name''"

definition fileParseImportID :: "string \<Rightarrow> string + (string \<times> fileVolumeID)" where
  "fileParseImportID ident =
     (case SplitN2 ident (CHR ''/'') of
        [p0, p1] \<Rightarrow>
          if p0 = [] \<or> p1 = [] then Inl (unexpected_import_id ident)
          else
            (case fileParseVolumeID p1 of
               Inl err \<Rightarrow> Inl err
             | Inr volID \<Rightarrow> Inr (p0, volID))
      | _ \<Rightarrow> Inl (unexpected_import_id ident))"

section \<open>Library functions the file resource relies on\<close>

definition ascii :: "string \<Rightarrow> bool" where
  "ascii s = list_all (\<lambda>c. (of_char c :: nat) < 128) s"

fun ext_scan :: "string \<Rightarrow> string \<Rightarrow> string" where
  \<comment> \<open>the loop of filepath.Ext, from the last byte backwards: stop at a separator,
      return from the first dot met\<close>
  "ext_scan [] acc = []"
| "ext_scan (c # cs) acc =
     (if c = CHR ''/'' then []
      else if c = CHR ''.'' then c # acc
      else ext_scan cs (c # acc))"

definition Ext :: "string \<Rightarrow> string" where
  "Ext path = ext_scan (rev path) []"

definition Base :: "string \<Rightarrow> string" where
  \<comment> \<open>filepath.Base: the last element of the path, trailing separators removed\<close>
  "Base path =
     (if path = [] then ''.''
      else
        (case dropWhile (\<lambda>c. c = CHR ''/'') (rev path) of
           [] \<Rightarrow> ''/''
         | c # cs \<Rightarrow> rev (takeWhile (\<lambda>x. x \<noteq> CHR ''/'') (c # cs))))"

definition lower_byte :: "char \<Rightarrow> char" where
  "lower_byte c =
     (if (65::nat) \<le> of_char c \<and> (of_char c :: nat) \<le> 90
      then char_of ((of_char c :: nat) + 32) else c)"

definition ToLower :: "(string \<Rightarrow> string) \<Rightarrow> string \<Rightarrow> string" where
  \<comment> \<open>strings.ToLower: a string of ASCII bytes is lowered byte by byte; any other
      string goes through strings.Map(unicode.ToLower, s), which reads Go's Unicode
      tables and is the parameter \<open>lowerUnicode\<close>\<close>
  "ToLower lowerUnicode s = (if ascii s then map lower_byte s else lowerUnicode s)"

definition TrimLeft :: "string \<Rightarrow> char \<Rightarrow> string" where
  \<comment> \<open>strings.TrimLeft with a one-byte cutset\<close>
  "TrimLeft s c = dropWhile (\<lambda>x. x = c) s"

definition last_segment :: "string \<Rightarrow> string" where
  \<comment> \<open>path := strings.Split(p, "/"); path[len(path)-1]: the text after the last slash\<close>
  "last_segment p = rev (takeWhile (\<lambda>c. c \<noteq> CHR ''/'') (rev p))"

definition in_range :: "nat \<Rightarrow> nat \<Rightarrow> char \<Rightarrow> bool" where
  "in_range lo hi c = (lo \<le> of_char c \<and> (of_char c :: nat) \<le> hi)"

definition rune_size :: "char \<Rightarrow> string \<Rightarrow> nat" where
  \<comment> \<open>the bytes that utf8.RuneCountInString consumes for the rune starting with byte
      \<open>c\<close> and followed by \<open>cs\<close>: the table \<^verbatim>\<open>first\<close> with its accept ranges; an
      invalid or short encoding is one byte wide\<close>
  "rune_size c cs =
     (let b = (of_char c :: nat) in
      if b < 128 then 1
      else if b < 194 \<or> 244 < b then 1
      else
        (let size = (if b < 224 then 2 else if b < 240 then 3 else 4 :: nat);
             lo = (if b = 224 then 160 else if b = 240 then 144 else 128 :: nat);
             hi = (if b = 237 then 159 else if b = 244 then 143 else 191 :: nat)
         in if length cs + 1 < size then 1
            else if \<not> in_range lo hi (cs ! 0) then 1
            else if size = 2 then 2
            else if \<not> in_range 128 191 (cs ! 1) then 1
            else if size = 3 then 3
            else if \<not> in_range 128 191 (cs ! 2) then 1
            else 4))"

fun RuneCountInString :: "string \<Rightarrow> nat" where
  "RuneCountInString [] = 0"
| "RuneCountInString (c # cs) = Suc (RuneCountInString (drop (rune_size c cs - 1) cs))"

fun decimal :: "nat \<Rightarrow> nat list" where
  \<comment> \<open>the decimal digits of a number, most significant first (what \<^verbatim>\<open>%d\<close> prints)\<close>
  "decimal n = (if n < 10 then [n] else decimal (n div 10) @ [n mod 10])"

declare decimal.simps [simp del]

definition digit_char :: "nat \<Rightarrow> char" where
  "digit_char n = char_of (48 + n)"

definition show_int :: "int \<Rightarrow> string" where
  "show_int i =
     (if i < 0 then CHR ''-'' # map digit_char (decimal (nat (- i)))
      else map digit_char (decimal (nat i)))"

fun parsenum :: "nat \<Rightarrow> nat list \<Rightarrow> nat option" where
  \<comment> \<open>fmt's parsenum over the digits of a width: it gives up (tooLarge) when the number
      read so far exceeds 1e6 and a further digit follows\<close>
  "parsenum num [] = Some num"
| "parsenum num (dg # ds) =
     (if num > 1000000 then None else parsenum (num * 10 + dg) ds)"

definition Sprintf_left :: "nat \<Rightarrow> string \<Rightarrow> string" where
  \<comment> \<open>fmt.Sprintf(fmt.Sprintf("%%-%dv", width), s) for a positive width: the format is
      \<^verbatim>\<open>%-<width>v\<close>; fmt pads on the right with spaces up to \<open>width\<close> runes and never
      truncates; a width it cannot read leaves no verb\<close>
  "Sprintf_left width s =
     (case parsenum 0 (decimal width) of
        None \<Rightarrow> ''%!(NOVERB)%!(EXTRA string='' @ s @ '')''
      | Some wid \<Rightarrow>
          if wid = 0 then s
          else s @ replicate (wid - RuneCountInString s) (CHR '' ''))"

definition hex_digit :: "nat \<Rightarrow> char" where
  "hex_digit n = ''0123456789abcdef'' ! n"

definition hex_lower :: "string \<Rightarrow> string" where
  \<comment> \<open>fmt.Sprintf("%x", bytes): two lower-case hexadecimal digits for each byte\<close>
  "hex_lower bytes =
     concat (map (\<lambda>c. [hex_digit ((of_char c :: nat) div 16),
                        hex_digit ((of_char c :: nat) mod 16)]) bytes)"


section \<open>The resource data\<close>

text \<open>
  The attributes of the file resource that the operations read and write through the
  host framework's \<^verbatim>\<open>d.Get\<close> and \<^verbatim>\<open>d.Set\<close>. A \<^verbatim>\<open>d.Get\<close> returns what the
  last \<^verbatim>\<open>d.Set\<close> of the attribute stored, so the record is passed along and updated.
  The two source blocks are lists of at most one element, as the schema declares them.
  An attribute left out of the configuration reads as its schema default; \<open>overwrite\<close>
  keeps the distinction, the other attributes hold the value read.
\<close>

record source_file_block =
  sf_path :: string
  sf_changed :: bool
  sf_checksum :: string
  sf_file_name :: string
  sf_insecure :: bool
  sf_min_tls :: string

record source_raw_block =
  raw_data :: string
  raw_file_name :: string
  raw_resize :: int

record resource_data =
  res_id :: string
  content_type :: string
  datastore_id :: string
  node_name :: string
  file_mode :: string
  file_name :: string
  file_modification_date :: string
  file_size :: int
  file_tag :: string
  overwrite :: "bool option"
  source_file :: "source_file_block list"
  source_raw :: "source_raw_block list"

definition dvResourceVirtualEnvironmentFileOverwrite :: bool where
  "dvResourceVirtualEnvironmentFileOverwrite = True"

definition get_overwrite :: "resource_data \<Rightarrow> bool" where
  \<comment> \<open>d.Get("overwrite"): the configured value, or the schema's Default\<close>
  "get_overwrite d =
     (case overwrite d of
        None \<Rightarrow> dvResourceVirtualEnvironmentFileOverwrite
      | Some b \<Rightarrow> b)"

text \<open>An entry of the backend's file listing.\<close>

record datastore_file =
  VolumeID :: string
  ContentType :: string

text \<open>
  What the operations do to the outside world, in the order they do it, and how an
  operation ends: it returns its diagnostics, or it panics.
\<close>

record upload_request =
  req_content_type :: string
  req_file_name :: string
  req_file :: string
  req_mode :: string

datatype event =
    EvVersion
  | EvListFiles
  | EvHTTPGet string
  | EvCreateTemp string
  | EvWriteTemp string
  | EvRemove string
  | EvOpen string
  | EvAPIUpload upload_request
  | EvGetDatastore
  | EvSSHUpload string upload_request
  | EvReadAttrs string
  | EvDeleteFile string

datatype outcome = Return diagnostics | Panic

record run =
  outcome :: outcome
  events :: "event list"
  rdata :: resource_data

section \<open>Source file name and content type\<close>

definition fileIsURL :: "resource_data \<Rightarrow> bool" where
  "fileIsURL d =
     (case source_file d of
        [] \<Rightarrow> False
      | b # _ \<Rightarrow> HasPrefix (sf_path b) ''http://'' \<or> HasPrefix (sf_path b) ''https://'')"

definition fileGetSourceFileName ::
  "(string \<Rightarrow> string + string) \<Rightarrow> resource_data \<Rightarrow> string + string" where
  \<comment> \<open>\<open>parseURI\<close> is url.ParseRequestURI followed by the Path of the URL: an error text
      or the path\<close>
  "fileGetSourceFileName parseURI d =
     (case (case source_file d of
              b # _ \<Rightarrow> Inr (sf_file_name b, sf_path b)
            | [] \<Rightarrow>
                (case source_raw d of
                   r # _ \<Rightarrow> Inr (raw_file_name r, [])
                 | [] \<Rightarrow> Inl ''missing argument \"source_file.path\"'')) of
        Inl err \<Rightarrow> Inl err
      | Inr (sourceFileFileName, sourceFilePath) \<Rightarrow>
          if sourceFileFileName = [] then
            (if fileIsURL d then
               (case parseURI sourceFilePath of
                  Inl err \<Rightarrow> Inl err
                | Inr urlPath \<Rightarrow>
                    if last_segment urlPath = []
                    then Inl (''failed to determine file name from the URL \"'' @
                              sourceFilePath @ ''\"'')
                    else Inr (last_segment urlPath))
             else Inr (Base sourceFilePath))
          else Inr sourceFileFileName)"

definition content_source_path :: "resource_data \<Rightarrow> string option" where
  \<comment> \<open>lines 636 to 651: the text whose suffix decides the content type, the path of
      the file source or else the file name of the raw source\<close>
  "content_source_path d =
     (case source_file d of
        b # _ \<Rightarrow> Some (sf_path b)
      | [] \<Rightarrow> (case source_raw d of r # _ \<Rightarrow> Some (raw_file_name r) | [] \<Rightarrow> None))"

definition infer_content_type :: "(string \<Rightarrow> string) \<Rightarrow> bool \<Rightarrow> string \<Rightarrow> string" where
  \<comment> \<open>the branch of fileGetContentType taken when no content type is configured; the
      result is empty when no rule applies. \<open>supportImport\<close> is
      ver.SupportImportContentType().\<close>
  "infer_content_type lowerUnicode supportImport sourceFilePath =
     (if HasSuffix sourceFilePath ''.tar.gz'' \<or> HasSuffix sourceFilePath ''.tar.xz''
      then ''vztmpl''
      else if supportImport \<and>
              (HasSuffix sourceFilePath ''.qcow2'' \<or>
               HasSuffix sourceFilePath ''.raw'' \<or>
               HasSuffix sourceFilePath ''.vmdk'')
      then ''import''
      else
        (let ext = TrimLeft (ToLower lowerUnicode (Ext sourceFilePath)) (CHR ''.'') in
         if ext = ''img'' \<or> ext = ''iso'' then ''iso''
         else if ext = ''yaml'' \<or> ext = ''yml'' then ''snippets''
         else []))"

definition cannot_determine :: "string \<Rightarrow> message" where
  "cannot_determine sourceFilePath =
     Text (''cannot determine the content type of source \"'' @ sourceFilePath @
           ''\" - Please manually define the \"content_type\" argument'')"

definition fileGetContentType ::
  "(string \<Rightarrow> string) \<Rightarrow> (string \<Rightarrow> diagnostics) \<Rightarrow> bool \<Rightarrow> bool option \<Rightarrow>
     resource_data \<Rightarrow> string option \<times> diagnostics" where
  \<comment> \<open>\<open>lowerUnicode\<close> is the part of strings.ToLower for text beyond ASCII;
      \<open>ctValidator\<close> is validators.ContentType(); \<open>minImport\<close> is
      SupportImportContentType() of version.MinimumProxmoxVersion; \<open>version\<close> is the
      answer of the backend's version call, \<open>None\<close> when it fails. The result is the
      pointer (nil as \<open>None\<close>) and the diagnostics.\<close>
  "fileGetContentType lowerUnicode ctValidator minImport version d =
     (let supportImport = (case version of Some b \<Rightarrow> b | None \<Rightarrow> minImport) in
      case content_source_path d of
        None \<Rightarrow>
          (None, Errorf (Text ''missing argument \"source_file.path\" or \"source_raw\"''))
      | Some sourceFilePath \<Rightarrow>
          if content_type d = [] then
            (if infer_content_type lowerUnicode supportImport sourceFilePath = []
             then (None, Errorf (cannot_determine sourceFilePath))
             else (Some (infer_content_type lowerUnicode supportImport sourceFilePath),
                   ctValidator (infer_content_type lowerUnicode supportImport sourceFilePath)))
          else (Some (content_type d), ctValidator (content_type d)))"

section \<open>Read\<close>

text \<open>
  What \<^verbatim>\<open>readFile\<close> or \<^verbatim>\<open>readURL\<close> hands back for a source path: modification
  date, size, tag and error.
\<close>

type_synonym file_attrs = "string \<times> int \<times> string \<times> string option"

definition drift_changed ::
  "string \<Rightarrow> int \<Rightarrow> string \<Rightarrow> string \<Rightarrow> int \<Rightarrow> string \<Rightarrow> bool" where
  \<comment> \<open>lines 826 to 829, on the values of lastFileMD, lastFileSize, lastFileTag and of
      the attributes just read\<close>
  "drift_changed lastFileMD lastFileSize lastFileTag fileModificationDate fileSize fileTag =
     (if lastFileMD \<noteq> [] \<and> lastFileSize \<noteq> 0 \<and> lastFileTag \<noteq> []
      then lastFileMD \<noteq> fileModificationDate \<or> lastFileSize \<noteq> fileSize \<or>
           lastFileTag \<noteq> fileTag
      else False)"

definition read_source_attrs :: "file_attrs \<Rightarrow> resource_data \<Rightarrow> resource_data" where
  \<comment> \<open>lines 811 to 832: store the attributes just read when any of them is set, then
      read the three attributes back from the resource data, compare, and store the
      \<open>changed\<close> flag in the source block\<close>
  "read_source_attrs attrs d =
     (case attrs of (fileModificationDate, fileSize, fileTag, err) \<Rightarrow>
        let d1 = (if fileModificationDate \<noteq> [] \<or> fileSize \<noteq> 0 \<or> fileTag \<noteq> []
                  then d\<lparr>file_modification_date := fileModificationDate,
                         file_size := fileSize, file_tag := fileTag\<rparr>
                  else d);
            changed = drift_changed (file_modification_date d1) (file_size d1) (file_tag d1)
                        fileModificationDate fileSize fileTag
        in d1\<lparr>source_file :=
                 (case source_file d1 of
                    [] \<Rightarrow> []
                  | b # bs \<Rightarrow> b\<lparr>sf_changed := changed\<rparr> # bs)\<rparr>)"

fun read_loop ::
  "(string \<Rightarrow> file_attrs) \<Rightarrow> datastore_file list \<Rightarrow> bool \<Rightarrow> diagnostics \<Rightarrow>
     event list \<Rightarrow> resource_data \<Rightarrow> run" where
  "read_loop readFileAttrs [] found diags evs d =
     \<lparr>outcome = Return [], events = evs,
      rdata = (if \<not> found then d\<lparr>res_id := []\<rparr> else d)\<rparr>"
| "read_loop readFileAttrs (v # vs) found diags evs d =
     (if VolumeID v = res_id d then
        (let parsed = fileParseVolumeID (VolumeID v);
             diags1 = diags @ FromErr (case parsed of Inl e \<Rightarrow> Some e
                                       | Inr volID \<Rightarrow> None);
             d1 = d\<lparr>file_name := (case parsed of Inl e \<Rightarrow> [] | Inr volID \<Rightarrow> fileName volID),
                    content_type := ContentType v\<rparr>
         in case source_file d1 of
              [] \<Rightarrow> read_loop readFileAttrs vs True diags1 evs d1
            | b # _ \<Rightarrow>
                (case readFileAttrs (sf_path b) of
                   (fileModificationDate, fileSize, fileTag, err) \<Rightarrow>
                     \<lparr>outcome =
                        (if HasError (diags1 @ FromErr err)
                         then Return (diags1 @ FromErr err) else Return []),
                      events = evs @ [EvReadAttrs (sf_path b)],
                      rdata = read_source_attrs
                                (fileModificationDate, fileSize, fileTag, err) d1\<rparr>))
      else read_loop readFileAttrs vs found diags evs d)"

definition fileRead ::
  "string option \<Rightarrow> (string + datastore_file list) \<Rightarrow> (string \<Rightarrow> file_attrs) \<Rightarrow>
     resource_data \<Rightarrow> run" where
  \<comment> \<open>\<open>getClient\<close> is the error of config.GetClient(), \<open>listing\<close> the answer of
      ListDatastoreFiles, \<open>readFileAttrs\<close> the function chosen between readFile and
      readURL\<close>
  "fileRead getClient listing readFileAttrs d =
     (case getClient of
        Some err \<Rightarrow> \<lparr>outcome = Return (FromErr (Some err)), events = [], rdata = d\<rparr>
      | None \<Rightarrow>
          (case listing of
             Inl err \<Rightarrow>
               \<lparr>outcome = Return (FromErr (Some err)), events = [EvListFiles], rdata = d\<rparr>
           | Inr list \<Rightarrow> read_loop readFileAttrs list False [] [EvListFiles] d))"

section \<open>Delete\<close>

text \<open>
  An error of the backend's delete call: its text, and whether errors.Is finds
  api.ErrResourceDoesNotExist in it.
\<close>

record api_error =
  err_text :: string
  is_does_not_exist :: bool

definition fileDelete ::
  "string option \<Rightarrow> (string \<Rightarrow> api_error option) \<Rightarrow> resource_data \<Rightarrow> run" where
  "fileDelete getClient deleteDatastoreFile d =
     (case getClient of
        Some err \<Rightarrow> \<lparr>outcome = Return (FromErr (Some err)), events = [], rdata = d\<rparr>
      | None \<Rightarrow>
          (case deleteDatastoreFile (res_id d) of
             Some err \<Rightarrow>
               if \<not> is_does_not_exist err
               then \<lparr>outcome = Return (FromErr (Some (err_text err))),
                      events = [EvDeleteFile (res_id d)], rdata = d\<rparr>
               else \<lparr>outcome = Return [], events = [EvDeleteFile (res_id d)],
                      rdata = d\<lparr>res_id := []\<rparr>\<rparr>
           | None \<Rightarrow>
               \<lparr>outcome = Return [], events = [EvDeleteFile (res_id d)],
                rdata = d\<lparr>res_id := []\<rparr>\<rparr>))"


section \<open>Create\<close>

text \<open>
  The collaborators of one create: the answer each call gives. The backend, the HTTP
  transport and the file system are outside the resource, so their answers are data
  of the run; calls made twice have one answer for each time. A call that the upload
  timeout cuts short answers with its error, like any other failure of the call.
\<close>

record datastore =
  ds_path :: "string option"
  ds_content :: "string list"
  ds_storage :: "string option"

record create_env =
  parseURI :: "string \<Rightarrow> string + string"
  lowerUnicode :: "string \<Rightarrow> string"
  ctValidator :: "string \<Rightarrow> diagnostics"
  minImport :: bool
  getClient :: "string option"
  version1 :: "bool option"
  listing1 :: "string + datastore_file list"
  getMinTLSVersion :: "string \<Rightarrow> string option"
  httpGet :: "string \<Rightarrow> string + string"
  createTemp :: "string \<Rightarrow> string + string"
  downloadCopy :: "string option"
  downloadClose :: "string option"
  openFile :: "string \<Rightarrow> string + string"
  hashCopy :: "string option"
  hashClose :: "string option"
  sha256 :: "string \<Rightarrow> string"
  rawCopy :: "string option"
  rawClose :: "string option"
  apiUpload :: "string option"
  getDatastore :: "string + datastore"
  sshUpload :: "string option"
  version2 :: "bool option"
  getClient2 :: "string option"
  listing2 :: "string + datastore_file list"
  readFileAttrs :: "string \<Rightarrow> file_attrs"

text \<open>
  The local state of a create: the diagnostics gathered, the events so far, the
  deferred removals of temporary files (they run when the function is left, the last
  one registered first), and the files that can be opened.
\<close>

record create_state =
  c_diags :: diagnostics
  c_events :: "event list"
  c_defers :: "event list"
  c_files :: "string \<Rightarrow> string + string"

definition finish :: "create_state \<Rightarrow> resource_data \<Rightarrow> outcome \<Rightarrow> run" where
  "finish st d oc = \<lparr>outcome = oc, events = c_events st @ c_defers st, rdata = d\<rparr>"

definition emit :: "event \<Rightarrow> create_state \<Rightarrow> create_state" where
  "emit e st = st\<lparr>c_events := c_events st @ [e]\<rparr>"

definition add_diags :: "diagnostics \<Rightarrow> create_state \<Rightarrow> create_state" where
  "add_diags ds st = st\<lparr>c_diags := c_diags st @ ds\<rparr>"

fun collision_loop ::
  "bool \<Rightarrow> string \<Rightarrow> datastore_file list \<Rightarrow> diagnostics \<Rightarrow> fileVolumeID + diagnostics" where
  \<comment> \<open>lines 355 to 375: \<open>Inl\<close> is the identifier the loop stops at with the
      already-exists error, \<open>Inr\<close> the diagnostics when the loop runs to its end\<close>
  "collision_loop ow name [] diags = Inr diags"
| "collision_loop ow name (file # rest) diags =
     (case fileParseVolumeID (VolumeID file) of
        Inl e \<Rightarrow> collision_loop ow name rest diags
      | Inr volumeID \<Rightarrow>
          if fileName volumeID = name then
            (if ow
             then collision_loop ow name rest
                    (diags @ [Diag Warning (ExistingFileOverwritten (String volumeID))])
             else Inl volumeID)
          else collision_loop ow name rest diags)"

definition download ::
  "create_env \<Rightarrow> resource_data \<Rightarrow> source_file_block \<Rightarrow> create_state \<Rightarrow>
     run + (create_state \<times> string)" where
  \<comment> \<open>lines 406 to 460: the local path of the source, after a download for a URL\<close>
  "download env d b st =
     (if fileIsURL d then
        (case getMinTLSVersion env (sf_min_tls b) of
           Some e \<Rightarrow> Inl (finish st d (Return (FromErr (Some e))))
         | None \<Rightarrow>
             (case httpGet env (sf_path b) of
                Inl err \<Rightarrow>
                  Inl (finish (emit (EvHTTPGet (sf_path b)) st) d (Return (FromErr (Some err))))
              | Inr body \<Rightarrow>
                  (case createTemp env ''download'' of
                     Inl err \<Rightarrow>
                       Inl (finish (emit (EvCreateTemp ''download'')
                                      (emit (EvHTTPGet (sf_path b)) st)) d
                              (Return (FromErr (Some err))))
                   | Inr tempName \<Rightarrow>
                       (let st1 = (emit (EvWriteTemp tempName)
                                     (emit (EvCreateTemp ''download'')
                                        (emit (EvHTTPGet (sf_path b)) st)))
                                  \<lparr>c_defers := EvRemove tempName # c_defers st,
                                   c_files := (c_files st)(tempName := Inr body)\<rparr>;
                            st2 = add_diags (FromErr (downloadCopy env) @
                                             FromErr (downloadClose env)) st1
                        in if HasError (c_diags st2)
                           then Inl (finish st2 d (Return (c_diags st2)))
                           else Inr (st2, tempName)))))
      else Inr (st, sf_path b))"

definition checksum_mismatch :: "string \<Rightarrow> string \<Rightarrow> message" where
  "checksum_mismatch calculatedChecksum sourceFileChecksum =
     Text (''the calculated SHA256 checksum \"'' @ calculatedChecksum @
           ''\" does not match source checksum \"'' @ sourceFileChecksum @ ''\"'')"

definition verify_checksum ::
  "create_env \<Rightarrow> resource_data \<Rightarrow> source_file_block \<Rightarrow> string \<Rightarrow> create_state \<Rightarrow>
     run + create_state" where
  \<comment> \<open>lines 462 to 491, on the file at \<open>sourceFilePathLocal\<close>\<close>
  "verify_checksum env d b sourceFilePathLocal st =
     (if sf_checksum b \<noteq> [] then
        (case c_files st sourceFilePathLocal of
           Inl err \<Rightarrow>
             Inl (finish (emit (EvOpen sourceFilePathLocal) st) d (Return (FromErr (Some err))))
         | Inr content \<Rightarrow>
             (let st1 = add_diags (FromErr (hashCopy env) @ FromErr (hashClose env))
                          (emit (EvOpen sourceFilePathLocal) st)
              in if HasError (c_diags st1) then Inl (finish st1 d (Return (c_diags st1)))
                 else if sf_checksum b \<noteq> hex_lower (sha256 env content)
                 then Inl (finish st1 d
                             (Return (Errorf (checksum_mismatch
                                                (hex_lower (sha256 env content))
                                                (sf_checksum b)))))
                 else Inr st1))
      else Inr st)"

definition resize_raw :: "source_raw_block \<Rightarrow> string + string" where
  \<comment> \<open>lines 500 to 506: the text of the error, or the data to write\<close>
  "resize_raw r =
     (if raw_resize r > 0 then
        (if int (length (raw_data r)) \<le> raw_resize r
         then Inr (Sprintf_left (nat (raw_resize r)) (raw_data r))
         else Inl (''cannot resize '' @ show_int (int (length (raw_data r))) @
                   '' bytes to '' @ show_int (raw_resize r) @ '' bytes''))
      else Inr (raw_data r))"

definition write_raw ::
  "create_env \<Rightarrow> resource_data \<Rightarrow> source_raw_block \<Rightarrow> create_state \<Rightarrow>
     run + (create_state \<times> string)" where
  \<comment> \<open>lines 495 to 533. When the temporary file cannot be created the code returns
      diag.FromErr(err) of the function's own \<open>err\<close>, which is nil there.\<close>
  "write_raw env d r st =
     (case resize_raw r of
        Inl msg \<Rightarrow> Inl (finish st d (Return (Errorf (Text msg))))
      | Inr sourceRawData \<Rightarrow>
          (case createTemp env ''raw'' of
             Inl e \<Rightarrow> Inl (finish (emit (EvCreateTemp ''raw'') st) d (Return (FromErr None)))
           | Inr tempName \<Rightarrow>
               (let st1 = (emit (EvWriteTemp tempName) (emit (EvCreateTemp ''raw'') st))
                            \<lparr>c_files := (c_files st)(tempName := Inr sourceRawData)\<rparr>;
                    st2 = add_diags (FromErr (rawCopy env) @ FromErr (rawClose env)) st1
                in if HasError (c_diags st2)
                   then Inl (finish st2 d (Return (c_diags st2)))
                   else Inr (st2\<lparr>c_defers := EvRemove tempName # c_defers st2\<rparr>,
                             tempName))))"

definition upload_api ::
  "create_env \<Rightarrow> resource_data \<Rightarrow> upload_request \<Rightarrow> create_state \<Rightarrow> run + create_state" where
  \<comment> \<open>lines 558 to 565: the content types iso, vztmpl and import go through the API\<close>
  "upload_api env d request st =
     (case apiUpload env of
        Some err \<Rightarrow>
          Inl (finish (emit (EvAPIUpload request) st) d
                 (Return (c_diags st @ FromErr (Some err))))
      | None \<Rightarrow> Inr (emit (EvAPIUpload request) st))"

definition upload_ssh ::
  "create_env \<Rightarrow> resource_data \<Rightarrow> string \<Rightarrow> upload_request \<Rightarrow> create_state \<Rightarrow>
     run + create_state" where
  \<comment> \<open>lines 566 to 603: every other content type is streamed to the datastore's path;
      the warning dereferences datastore.Storage\<close>
  "upload_ssh env d ct request st =
     (case getDatastore env of
        Inl err2 \<Rightarrow>
          Inl (finish (emit EvGetDatastore st) d
                 (Return (Errorf (Text (''failed to get datastore: '' @ err2)))))
      | Inr ds \<Rightarrow>
          (case ds_path ds of
             None \<Rightarrow>
               Inl (finish (emit EvGetDatastore st) d
                      (Return (Errorf (Text ''failed to determine the datastore path''))))
           | Some dsPath \<Rightarrow>
               if dsPath = [] then
                 Inl (finish (emit EvGetDatastore st) d
                        (Return (Errorf (Text ''failed to determine the datastore path''))))
               else if ct \<notin> set (ds_content ds) \<and> ds_storage ds = None then
                 Inl (finish (emit EvGetDatastore st) d Panic)
               else
                 (let st2 =
                        (if ct \<notin> set (ds_content ds)
                         then add_diags
                                [Diag Warning
                                   (ContentTypeNotSupported
                                      (case ds_storage ds of Some sto \<Rightarrow> sto | None \<Rightarrow> [])
                                      ct (sort (ds_content ds)))]
                                (emit EvGetDatastore st)
                         else emit EvGetDatastore st);
                      request2 =
                        (if ct = ''backup'' then request\<lparr>req_content_type := ''dump''\<rparr>
                         else request)
                  in case sshUpload env of
                       Some err \<Rightarrow>
                         Inl (finish (emit (EvSSHUpload dsPath request2) st2) d
                                (Return (c_diags st2 @ FromErr (Some err))))
                     | None \<Rightarrow> Inr (emit (EvSSHUpload dsPath request2) st2))))"

definition upload ::
  "create_env \<Rightarrow> resource_data \<Rightarrow> string \<Rightarrow> string option \<Rightarrow> string \<Rightarrow> create_state \<Rightarrow>
     run + create_state" where
  \<comment> \<open>lines 535 to 603; \<open>ctype\<close> is the content type pointer that fileGetContentType gave\<close>
  "upload env d name ctype sourceFilePathLocal st =
     (case c_files st sourceFilePathLocal of
        Inl err \<Rightarrow>
          Inl (finish (emit (EvOpen sourceFilePathLocal) st) d (Return (FromErr (Some err))))
      | Inr content \<Rightarrow>
          (case ctype of
             None \<Rightarrow> Inl (finish (emit (EvOpen sourceFilePathLocal) st) d Panic)
           | Some ct \<Rightarrow>
               if ct = ''iso'' \<or> ct = ''vztmpl'' \<or> ct = ''import''
               then upload_api env d
                      \<lparr>req_content_type = ct, req_file_name = name, req_file = content,
                       req_mode = file_mode d\<rparr>
                      (emit (EvOpen sourceFilePathLocal) st)
               else upload_ssh env d ct
                      \<lparr>req_content_type = ct, req_file_name = name, req_file = content,
                       req_mode = file_mode d\<rparr>
                      (emit (EvOpen sourceFilePathLocal) st)))"

definition read_back :: "create_env \<Rightarrow> resource_data \<Rightarrow> create_state \<Rightarrow> run" where
  \<comment> \<open>lines 605 to 619: fileGetVolumeID, d.SetId, fileRead and the check of the
      identifier; fileGetVolumeID dereferences the content type pointer\<close>
  "read_back env d st =
     (case fileGetSourceFileName (parseURI env) d of
        Inl err \<Rightarrow> finish st d (Return (c_diags st @ FromErr (Some err)))
      | Inr name \<Rightarrow>
          (case fileGetContentType (lowerUnicode env) (ctValidator env) (minImport env) (version2 env) d of
             (None, di) \<Rightarrow> finish (emit EvVersion st) d Panic
           | (Some ct, di) \<Rightarrow>
               if HasError (c_diags st @ di)
               then finish (emit EvVersion st) d (Return (c_diags st @ di))
               else
                 (let volID = \<lparr>datastoreID = datastore_id d, contentType = ct,
                                fileName = name\<rparr>;
                      r = fileRead (getClient2 env) (listing2 env) (readFileAttrs env)
                            (d\<lparr>res_id := String volID\<rparr>)
                  in case outcome r of
                       Panic \<Rightarrow>
                         \<lparr>outcome = Panic,
                          events = c_events st @ [EvVersion] @ events r @ c_defers st,
                          rdata = rdata r\<rparr>
                     | Return rd \<Rightarrow>
                         \<lparr>outcome =
                            Return (c_diags st @ di @ rd @
                                    (if res_id (rdata r) = []
                                     then Errorf (FailedToReadFileFrom (String volID))
                                     else [])),
                          events = c_events st @ [EvVersion] @ events r @ c_defers st,
                          rdata = rdata r\<rparr>)))"

definition conflicting_source :: message where
  "conflicting_source = Text ''please specify \"source_file.path\" or \"source_raw\" - not both''"

definition file_stage ::
  "create_env \<Rightarrow> resource_data \<Rightarrow> create_state \<Rightarrow> run + (create_state \<times> string)" where
  \<comment> \<open>lines 399 to 492: the file source, when there is one, made local and checked; the
      result carries sourceFilePathLocal\<close>
  "file_stage env d st =
     (case source_file d of
        [] \<Rightarrow> Inr (st, [])
      | b # _ \<Rightarrow>
          (case download env d b st of
             Inl r \<Rightarrow> Inl r
           | Inr (st1, sourceFilePathLocal) \<Rightarrow>
               (case verify_checksum env d b sourceFilePathLocal st1 of
                  Inl r \<Rightarrow> Inl r
                | Inr st2 \<Rightarrow> Inr (st2, sourceFilePathLocal))))"

definition raw_stage ::
  "create_env \<Rightarrow> resource_data \<Rightarrow> create_state \<Rightarrow> string \<Rightarrow>
     run + (create_state \<times> string)" where
  \<comment> \<open>lines 495 to 533: the raw source, when there is one, written to a temporary file\<close>
  "raw_stage env d st sourceFilePathLocal =
     (case source_raw d of
        [] \<Rightarrow> Inr (st, sourceFilePathLocal)
      | r # _ \<Rightarrow> write_raw env d r st)"

definition create_from_sources ::
  "create_env \<Rightarrow> resource_data \<Rightarrow> string \<Rightarrow> string option \<Rightarrow> create_state \<Rightarrow> run" where
  \<comment> \<open>lines 377 to 620\<close>
  "create_from_sources env d name ctype st0 =
     (let st = (if source_file d \<noteq> [] \<and> source_raw d \<noteq> []
                then add_diags (Errorf conflicting_source) st0 else st0)
      in if HasError (c_diags st) then finish st d (Return (c_diags st))
         else
           (case file_stage env d st of
              Inl r \<Rightarrow> r
            | Inr (st2, sourceFilePathLocal) \<Rightarrow>
                (case raw_stage env d st2 sourceFilePathLocal of
                   Inl r \<Rightarrow> r
                 | Inr (st3, sourceFilePathLocal3) \<Rightarrow>
                     (case upload env d name ctype sourceFilePathLocal3 st3 of
                        Inl r \<Rightarrow> r
                      | Inr st4 \<Rightarrow> read_back env d st4))))"

definition initial_state :: "create_env \<Rightarrow> diagnostics \<Rightarrow> create_state" where
  \<comment> \<open>the state of a create behind the version call, the listing and the check of
      the names\<close>
  "initial_state env diags =
     \<lparr>c_diags = diags, c_events = [EvVersion, EvListFiles], c_defers = [],
      c_files = openFile env\<rparr>"

definition fileCreate :: "create_env \<Rightarrow> resource_data \<Rightarrow> run" where
  "fileCreate env d =
     (case fileGetSourceFileName (parseURI env) d of
        Inl err \<Rightarrow> \<lparr>outcome = Return (FromErr (Some err)), events = [], rdata = d\<rparr>
      | Inr name \<Rightarrow>
          (case getClient env of
             Some err \<Rightarrow> \<lparr>outcome = Return (FromErr (Some err)), events = [], rdata = d\<rparr>
           | None \<Rightarrow>
               (case fileGetContentType (lowerUnicode env) (ctValidator env) (minImport env) (version1 env) d of
                  (ctype, dg) \<Rightarrow>
                    (case listing1 env of
                       Inl err \<Rightarrow>
                         \<lparr>outcome = Return (FromErr (Some err)),
                          events = [EvVersion, EvListFiles], rdata = d\<rparr>
                     | Inr files \<Rightarrow>
                         (case collision_loop (get_overwrite d) name files dg of
                            Inl volumeID \<Rightarrow>
                              \<lparr>outcome = Return (Errorf (FileAlreadyExists (String volumeID))),
                               events = [EvVersion, EvListFiles], rdata = d\<rparr>
                          | Inr diags \<Rightarrow>
                              create_from_sources env d name ctype
                                (initial_state env diags))))))"


section \<open>Notions for the statements on create\<close>

definition same_named :: "string \<Rightarrow> datastore_file \<Rightarrow> bool" where
  \<comment> \<open>the listed file has a volume identifier that parses and whose file name is the
      name of the file to create\<close>
  "same_named name file =
     (case fileParseVolumeID (VolumeID file) of
        Inl e \<Rightarrow> False
      | Inr volumeID \<Rightarrow> fileName volumeID = name)"

fun is_upload :: "event \<Rightarrow> bool" where
  "is_upload (EvAPIUpload request) = True"
| "is_upload (EvSSHUpload dsPath request) = True"
| "is_upload e = False"

fun is_transfer :: "event \<Rightarrow> bool" where
  \<comment> \<open>a download, a temporary file or an upload\<close>
  "is_transfer (EvHTTPGet u) = True"
| "is_transfer (EvCreateTemp pat) = True"
| "is_transfer (EvWriteTemp t) = True"
| "is_transfer (EvAPIUpload request) = True"
| "is_transfer (EvSSHUpload dsPath request) = True"
| "is_transfer e = False"

definition uploaded :: "event list \<Rightarrow> bool" where
  "uploaded evs = list_ex is_upload evs"

definition quiet :: "create_state \<Rightarrow> bool" where
  \<comment> \<open>no upload so far\<close>
  "quiet st = (\<not> uploaded (c_events st) \<and> \<not> uploaded (c_defers st))"

definition succeeded :: "run \<Rightarrow> bool" where
  \<comment> \<open>the operation returned, and without an error among its diagnostics\<close>
  "succeeded r = (case outcome r of Return ds \<Rightarrow> \<not> HasError ds | Panic \<Rightarrow> False)"

definition panicked :: "run \<Rightarrow> bool" where
  "panicked r = (case outcome r of Return ds \<Rightarrow> False | Panic \<Rightarrow> True)"

definition same_but_diags :: "create_state \<Rightarrow> create_state \<Rightarrow> bool" where
  \<comment> \<open>two states of a create that differ at most in diagnostics that are no errors\<close>
  "same_but_diags st st' =
     (c_events st = c_events st' \<and> c_defers st = c_defers st' \<and> c_files st = c_files st' \<and>
      HasError (c_diags st) = HasError (c_diags st'))"

definition run_sim :: "run \<Rightarrow> run \<Rightarrow> bool" where
  \<comment> \<open>two runs with the same events and resource data that end alike\<close>
  "run_sim r r' =
     (events r = events r' \<and> rdata r = rdata r' \<and> succeeded r = succeeded r' \<and>
      panicked r = panicked r')"

definition overwrite_warnings :: "string \<Rightarrow> datastore_file list \<Rightarrow> diagnostics" where
  \<comment> \<open>the warnings that the check of the names adds when overwriting is allowed\<close>
  "overwrite_warnings name files =
     map (\<lambda>f. Diag Warning (ExistingFileOverwritten (VolumeID f))) (filter (same_named name) files)"

definition stage_sim ::
  "run + (create_state \<times> string) \<Rightarrow> run + (create_state \<times> string) \<Rightarrow> bool" where
  \<comment> \<open>two results of a stage of create, from states that are the same but for diagnostics\<close>
  "stage_sim x y =
     (case x of
        Inl r \<Rightarrow> (case y of Inl r' \<Rightarrow> run_sim r r' | Inr b \<Rightarrow> False)
      | Inr a \<Rightarrow> (case y of Inl r' \<Rightarrow> False
                  | Inr b \<Rightarrow> snd a = snd b \<and> same_but_diags (fst a) (fst b)))"

definition step_sim :: "run + create_state \<Rightarrow> run + create_state \<Rightarrow> bool" where
  \<comment> \<open>the same for a stage that hands on the state alone\<close>
  "step_sim x y =
     (case x of
        Inl r \<Rightarrow> (case y of Inl r' \<Rightarrow> run_sim r r' | Inr b \<Rightarrow> False)
      | Inr a \<Rightarrow> (case y of Inl r' \<Rightarrow> False | Inr b \<Rightarrow> same_but_diags a b))"

definition starts_with :: "event list \<Rightarrow> event list \<Rightarrow> bool" where
  \<comment> \<open>the events \<open>xs\<close> begin with the events \<open>evs\<close>\<close>
  "starts_with evs xs = (take (length evs) xs = evs)"

definition extends :: "create_state \<Rightarrow> create_state \<Rightarrow> bool" where
  \<comment> \<open>a later state of the create: more events, more diagnostics\<close>
  "extends st s =
     (starts_with (c_events st) (c_events s) \<and> set (c_diags st) \<subseteq> set (c_diags s))"

definition grows :: "create_state \<Rightarrow> create_state \<Rightarrow> bool" where
  \<comment> \<open>a later state that has uploaded nothing if the earlier one had not\<close>
  "grows st s = (extends st s \<and> (quiet st \<longrightarrow> quiet s))"

definition ends_keeping :: "create_state \<Rightarrow> run \<Rightarrow> bool" where
  \<comment> \<open>a run from a state that returns the diagnostics of that state with its own\<close>
  "ends_keeping st r =
     (starts_with (c_events st) (events r) \<and>
      (\<forall>ds. outcome r = Return ds \<longrightarrow> set (c_diags st) \<subseteq> set ds))"

fun plain_error :: "diagnostic \<Rightarrow> bool" where
  \<comment> \<open>an error whose summary is a text\<close>
  "plain_error (Diag Error (Text t)) = True"
| "plain_error x = False"

definition ends_from :: "create_state \<Rightarrow> run \<Rightarrow> bool" where
  \<comment> \<open>a run that can end a create in the state \<open>st\<close>: it returns the diagnostics of
      the state with its own when it has uploaded, and otherwise these or errors of its own\<close>
  "ends_from st r =
     (starts_with (c_events st) (events r) \<and>
      (quiet st \<and> uploaded (events r) \<longrightarrow>
         (\<forall>ds. outcome r = Return ds \<longrightarrow> set (c_diags st) \<subseteq> set ds)) \<and>
      (\<forall>ds. outcome r = Return ds \<longrightarrow>
         set (c_diags st) \<subseteq> set ds \<or> list_all plain_error ds))"

definition stage_ok :: "create_state \<Rightarrow> run + (create_state \<times> string) \<Rightarrow> bool" where
  \<comment> \<open>the result of a stage run in the state \<open>st\<close>\<close>
  "stage_ok st x = (case x of Inl r \<Rightarrow> ends_from st r | Inr a \<Rightarrow> grows st (fst a))"

definition step_ok :: "create_state \<Rightarrow> run + create_state \<Rightarrow> bool" where
  \<comment> \<open>the same for a stage that hands on the state alone\<close>
  "step_ok st x = (case x of Inl r \<Rightarrow> ends_from st r | Inr s \<Rightarrow> grows st s)"

definition upload_step_ok :: "create_state \<Rightarrow> run + create_state \<Rightarrow> bool" where
  \<comment> \<open>the same for the upload, behind which the state has uploaded\<close>
  "upload_step_ok st x = (case x of Inl r \<Rightarrow> ends_from st r | Inr s \<Rightarrow> extends st s)"

definition checksum_ok :: "create_env \<Rightarrow> source_file_block \<Rightarrow> string \<Rightarrow> bool" where
  \<comment> \<open>the check of lines 462 to 491 lets the content pass: no checksum is configured, or
      the digest is read without error and its lower-case hexadecimal text is the
      configured one\<close>
  "checksum_ok env b content =
     (sf_checksum b = [] \<or>
      (hashCopy env = None \<and> hashClose env = None \<and>
       sf_checksum b = hex_lower (sha256 env content)))"

definition source_fetched :: "create_env \<Rightarrow> resource_data \<Rightarrow> string \<Rightarrow> string \<Rightarrow> bool" where
  \<comment> \<open>the file source, the only source, is at hand at the local path \<open>p\<close> with the
      content \<open>content\<close>: downloaded to a temporary file for a URL (lines 406 to 457),
      and the configured path, which opens, otherwise\<close>
  "source_fetched env d p content =
     (case source_file d of
        [] \<Rightarrow> False
      | b # bs \<Rightarrow>
          source_raw d = [] \<and>
          (if fileIsURL d
           then getMinTLSVersion env (sf_min_tls b) = None \<and>
                httpGet env (sf_path b) = Inr content \<and>
                createTemp env ''download'' = Inr p \<and>
                downloadCopy env = None \<and> downloadClose env = None
           else p = sf_path b \<and> openFile env p = Inr content))"

definition source_ready :: "create_env \<Rightarrow> resource_data \<Rightarrow> string \<Rightarrow> string \<Rightarrow> bool" where
  \<comment> \<open>the collaborators answer so that the one configured source reaches the upload as
      the file \<open>p\<close> with the content \<open>content\<close>: a file source that is fetched and passes
      the check of its checksum, or a raw source that is resized and written to its
      temporary file\<close>
  "source_ready env d p content =
     (case source_file d of
        b # bs \<Rightarrow> source_fetched env d p content \<and> checksum_ok env b content
      | [] \<Rightarrow>
          (case source_raw d of
             [] \<Rightarrow> False
           | r # rs \<Rightarrow>
               resize_raw r = Inr content \<and> createTemp env ''raw'' = Inr p \<and>
               rawCopy env = None \<and> rawClose env = None))"

definition upload_event ::
  "create_env \<Rightarrow> resource_data \<Rightarrow> string \<Rightarrow> string \<Rightarrow> string \<Rightarrow> event option" where
  \<comment> \<open>the upload call of lines 557 to 603 for a content type, a file name and a
      content, when the create gets as far as the call: the API upload for iso, vztmpl
      and import, the upload over SSH to the path of the datastore otherwise\<close>
  "upload_event env d ct name content =
     (if ct = ''iso'' \<or> ct = ''vztmpl'' \<or> ct = ''import''
      then Some (EvAPIUpload \<lparr>req_content_type = ct, req_file_name = name,
                              req_file = content, req_mode = file_mode d\<rparr>)
      else
        (case getDatastore env of
           Inl e \<Rightarrow> None
         | Inr ds \<Rightarrow>
             (case ds_path ds of
                None \<Rightarrow> None
              | Some dsPath \<Rightarrow>
                  if dsPath = [] \<or> (ct \<notin> set (ds_content ds) \<and> ds_storage ds = None)
                  then None
                  else Some (EvSSHUpload dsPath
                               \<lparr>req_content_type = (if ct = ''backup'' then ''dump'' else ct),
                                req_file_name = name, req_file = content,
                                req_mode = file_mode d\<rparr>))))"

section \<open>Example inputs\<close>

definition example_file_block :: source_file_block where
  "example_file_block =
     \<lparr>sf_path = ''https://example.com/a.iso'', sf_changed = False, sf_checksum = [],
      sf_file_name = [], sf_insecure = False, sf_min_tls = []\<rparr>"

definition drift_recorded :: resource_data where
  \<comment> \<open>a resource whose state holds the attributes of the last read\<close>
  "drift_recorded =
     \<lparr>res_id = ''local:iso/a.iso'', content_type = ''iso'', datastore_id = ''local'',
      node_name = ''pve'', file_mode = [], file_name = ''a.iso'',
      file_modification_date = ''2024-01-01T00:00:00Z'', file_size = 10, file_tag = ''t1'',
      overwrite = None, source_file = [example_file_block], source_raw = []\<rparr>"

definition drift_listing :: "datastore_file list" where
  "drift_listing = [\<lparr>VolumeID = ''local:iso/a.iso'', ContentType = ''iso''\<rparr>]"

definition drift_fresh :: "string \<Rightarrow> file_attrs" where
  "drift_fresh p = (''2024-01-02T00:00:00Z'', 10, ''t1'', None)"

definition refuse_delete :: "string \<Rightarrow> api_error option" where
  "refuse_delete ident = Some \<lparr>err_text = ''permission denied'', is_does_not_exist = False\<rparr>"

definition absent_delete :: "string \<Rightarrow> api_error option" where
  "absent_delete ident =
     Some \<lparr>err_text = ''the requested resource does not exist'', is_does_not_exist = True\<rparr>"


definition known_content_type :: "string \<Rightarrow> diagnostics" where
  \<comment> \<open>a content type validator for the examples\<close>
  "known_content_type ct =
     (if ct \<in> set [''backup'', ''images'', ''import'', ''iso'', ''snippets'', ''vztmpl'']
      then [] else [Diag Error (Text (''unknown content type '' @ ct))])"

definition sha256_empty :: string where
  \<comment> \<open>the SHA-256 digest of the empty byte string\<close>
  "sha256_empty =
     [CHR 0xE3, CHR 0xB0, CHR 0xC4, CHR 0x42, CHR 0x98, CHR 0xFC, CHR 0x1C, CHR 0x14,
      CHR 0x9A, CHR 0xFB, CHR 0xF4, CHR 0xC8, CHR 0x99, CHR 0x6F, CHR 0xB9, CHR 0x24,
      CHR 0x27, CHR 0xAE, CHR 0x41, CHR 0xE4, CHR 0x64, CHR 0x9B, CHR 0x93, CHR 0x4C,
      CHR 0xA4, CHR 0x95, CHR 0x99, CHR 0x1B, CHR 0x78, CHR 0x52, CHR 0xB8, CHR 0x55]"

definition example_env :: "datastore_file list \<Rightarrow> datastore_file list \<Rightarrow> create_env" where
  \<comment> \<open>collaborators that all answer without error: a backend that lists \<open>before\<close>
      ahead of the upload and \<open>after\<close> behind it, and a file system that holds the
      empty file \<open>/srv/empty.iso\<close>, the only file whose digest is asked for\<close>
  "example_env before after =
     \<lparr>parseURI = (\<lambda>u. Inl ''invalid URI for request''),
      lowerUnicode = (\<lambda>s. s),
      ctValidator = known_content_type,
      minImport = False,
      getClient = None,
      version1 = Some True,
      listing1 = Inr before,
      getMinTLSVersion = (\<lambda>v. None),
      httpGet = (\<lambda>u. Inl ''no route to host''),
      createTemp = (\<lambda>pat. Inr (''/tmp/'' @ pat @ ''1'')),
      downloadCopy = None,
      downloadClose = None,
      openFile = (\<lambda>p. if p = ''/srv/empty.iso'' then Inr []
                      else Inl ''no such file or directory''),
      hashCopy = None,
      hashClose = None,
      sha256 = (\<lambda>bytes. sha256_empty),
      rawCopy = None,
      rawClose = None,
      apiUpload = None,
      getDatastore = Inr \<lparr>ds_path = Some ''/var/lib/vz'',
                          ds_content = [''iso'', ''vztmpl'', ''snippets'', ''backup''],
                          ds_storage = Some ''local''\<rparr>,
      sshUpload = None,
      version2 = Some True,
      getClient2 = None,
      listing2 = Inr after,
      readFileAttrs = (\<lambda>p. ([], 0, [], None))\<rparr>"

definition example_state :: create_state where
  \<comment> \<open>the state of a create behind the listing, in the example environment\<close>
  "example_state =
     \<lparr>c_diags = [], c_events = [EvVersion, EvListFiles], c_defers = [],
      c_files = openFile (example_env [] [])\<rparr>"

definition file_resource :: "string \<Rightarrow> string \<Rightarrow> string \<Rightarrow> resource_data" where
  \<comment> \<open>a new resource with a file source: path, file name, checksum\<close>
  "file_resource p nm cks =
     \<lparr>res_id = [], content_type = [], datastore_id = ''local'', node_name = ''pve'',
      file_mode = [], file_name = [], file_modification_date = [], file_size = 0,
      file_tag = [], overwrite = None,
      source_file = [\<lparr>sf_path = p, sf_changed = False, sf_checksum = cks,
                       sf_file_name = nm, sf_insecure = False, sf_min_tls = []\<rparr>],
      source_raw = []\<rparr>"

definition raw_resource :: "string \<Rightarrow> string \<Rightarrow> int \<Rightarrow> resource_data" where
  \<comment> \<open>a new resource with a raw source: data, file name, resize\<close>
  "raw_resource txt nm n =
     \<lparr>res_id = [], content_type = [], datastore_id = ''local'', node_name = ''pve'',
      file_mode = [], file_name = [], file_modification_date = [], file_size = 0,
      file_tag = [], overwrite = None, source_file = [],
      source_raw = [\<lparr>raw_data = txt, raw_file_name = nm, raw_resize = n\<rparr>]\<rparr>"


definition both_sources :: resource_data where
  \<comment> \<open>a resource that configures a file source and a raw source at once\<close>
  "both_sources =
     (file_resource ''/srv/empty.iso'' [] [])
       \<lparr>source_raw := [\<lparr>raw_data = ''abc'', raw_file_name = ''ci.yaml'', raw_resize = 0\<rparr>]\<rparr>"

definition same_name_listing :: "datastore_file list" where
  \<comment> \<open>a listing with a file of the same name under another content type\<close>
  "same_name_listing = [\<lparr>VolumeID = ''local:backup/empty.iso'', ContentType = ''backup''\<rparr>]"

definition uploaded_listing :: "datastore_file list" where
  \<comment> \<open>the listing behind the upload of \<open>empty.iso\<close>\<close>
  "uploaded_listing = [\<lparr>VolumeID = ''local:iso/empty.iso'', ContentType = ''iso''\<rparr>]"

definition served_env :: create_env where
  \<comment> \<open>the example collaborators with a web server that answers every request with
      the empty file\<close>
  "served_env =
     (example_env [] [])\<lparr>parseURI := (\<lambda>u. Inr ''/a.iso''), httpGet := (\<lambda>u. Inr [])\<rparr>"

section \<open>Splitting\<close>

lemma SplitN2_none: "sep \<notin> set s \<Longrightarrow> SplitN2 s sep = [s]"
  by (simp add: SplitN2_def)

lemma SplitN2_first: "sep \<notin> set a \<Longrightarrow> SplitN2 (a @ sep # b) sep = [a, b]"
  by (induction a) (auto simp: SplitN2_def)

lemma SplitN2_cases:
  "(sep \<notin> set s \<and> SplitN2 s sep = [s]) \<or>
   (\<exists>a b. s = a @ sep # b \<and> sep \<notin> set a \<and> SplitN2 s sep = [a, b])"
proof (cases "sep \<in> set s")
  case False
  then show ?thesis by (simp add: SplitN2_def)
next
  case True
  let ?a = "takeWhile (\<lambda>c. c \<noteq> sep) s"
  let ?r = "dropWhile (\<lambda>c. c \<noteq> sep) s"
  from True have "?r \<noteq> []" by auto
  moreover have "?r \<noteq> [] \<Longrightarrow> hd ?r = sep" using hd_dropWhile [of "\<lambda>c. c \<noteq> sep" s] by simp
  ultimately have r: "?r = sep # tl ?r" by (cases ?r) auto
  have "s = ?a @ ?r" by simp
  with r have s: "s = ?a @ sep # tl ?r" by simp
  have na: "sep \<notin> set ?a" by (auto dest: set_takeWhileD)
  from True have "SplitN2 s sep = [?a, tl ?r]" by (simp add: SplitN2_def)
  with s na show ?thesis by blast
qed

lemma decimal_digit [simp]: "n < 10 \<Longrightarrow> decimal n = [n]"
  by (simp add: decimal.simps)

lemma decimal_more [simp]: "\<not> n < 10 \<Longrightarrow> decimal n = decimal (n div 10) @ [n mod 10]"
  by (subst decimal.simps) simp

lemmas create_defs = fileCreate_def initial_state_def create_from_sources_def file_stage_def raw_stage_def
  download_def verify_checksum_def
  write_raw_def resize_raw_def upload_def upload_api_def upload_ssh_def read_back_def fileRead_def finish_def emit_def
  add_diags_def fileGetSourceFileName_def fileGetContentType_def content_source_path_def
  infer_content_type_def fileIsURL_def get_overwrite_def
  dvResourceVirtualEnvironmentFileOverwrite_def HasError_def FromErr_def Errorf_def
  HasPrefix_def HasSuffix_def Base_def Ext_def ToLower_def TrimLeft_def lower_byte_def
  fileParseVolumeID_def SplitN2_def String_def read_source_attrs_def drift_changed_def
  cannot_determine_def conflicting_source_def checksum_mismatch_def ascii_def

lemmas example_defs = example_env_def example_state_def file_resource_def raw_resource_def
  known_content_type_def example_file_block_def

lemmas byte_defs = char_of_def bit_iff_odd

lemmas suffix_defs = HasSuffix_def Ext_def ToLower_def TrimLeft_def lower_byte_def ascii_def

section \<open>Round trip of the volume identifier\<close>

text \<open>
  C7. For every volume identifier whose datastore id, content type and file name are
  non-empty and contain neither a colon nor a slash, parsing the formatted string
  \<open>datastore_id:content_type/file_name\<close> gives back the identifier.
\<close>

theorem parse_format_roundtrip:
  assumes "datastoreID v \<noteq> []" "contentType v \<noteq> []" "fileName v \<noteq> []"
    and "CHR '':'' \<notin> set (datastoreID v)" "CHR ''/'' \<notin> set (datastoreID v)"
    and "CHR '':'' \<notin> set (contentType v)" "CHR ''/'' \<notin> set (contentType v)"
    and "CHR '':'' \<notin> set (fileName v)" "CHR ''/'' \<notin> set (fileName v)"
  shows "fileParseVolumeID (String v) = Inr v"
proof -
  have s1: "SplitN2 (String v) (CHR '':'') =
              [datastoreID v, contentType v @ ''/'' @ fileName v]"
    using assms(4) SplitN2_first [of "CHR '':''" "datastoreID v"]
    by (simp add: String_def)
  have s2: "SplitN2 (contentType v @ CHR ''/'' # fileName v) (CHR ''/'') =
              [contentType v, fileName v]"
    using assms(7) by (rule SplitN2_first)
  show ?thesis
    using assms(1-3) by (simp add: fileParseVolumeID_def s1 s2)
qed

theorem parse_format_roundtrip_witness:
  "fileParseVolumeID (String \<lparr>datastoreID = ''local'', contentType = ''iso'',
      fileName = ''debian.iso''\<rparr>) =
   Inr \<lparr>datastoreID = ''local'', contentType = ''iso'', fileName = ''debian.iso''\<rparr>"
  using parse_format_roundtrip
    [of "\<lparr>datastoreID = ''local'', contentType = ''iso'', fileName = ''debian.iso''\<rparr>"]
  by simp

section \<open>Rejected volume identifiers\<close>

lemma fileParseVolumeID_error:
  "fileParseVolumeID s = Inl e \<Longrightarrow> e = unexpected_volume_id s"
  by (auto simp: fileParseVolumeID_def split: list.splits if_splits)

lemma fileParseVolumeID_accepts:
  "fileParseVolumeID s = Inr v \<longleftrightarrow>
     (\<exists>a b c. s = a @ CHR '':'' # b @ CHR ''/'' # c \<and>
        CHR '':'' \<notin> set a \<and> CHR ''/'' \<notin> set b \<and> a \<noteq> [] \<and> b \<noteq> [] \<and> c \<noteq> [] \<and>
        v = \<lparr>datastoreID = a, contentType = b, fileName = c\<rparr>)"
  (is "?L \<longleftrightarrow> ?R")
proof
  assume l: ?L
  from SplitN2_cases [of "CHR '':''" s] show ?R
  proof (elim disjE conjE exE)
    assume "SplitN2 s (CHR '':'') = [s]"
    with l show ?R by (simp add: fileParseVolumeID_def)
  next
    fix a r
    assume s: "s = a @ CHR '':'' # r" and na: "CHR '':'' \<notin> set a"
      and sp: "SplitN2 s (CHR '':'') = [a, r]"
    from SplitN2_cases [of "CHR ''/''" r] show ?R
    proof (elim disjE conjE exE)
      assume "SplitN2 r (CHR ''/'') = [r]"
      with l sp show ?R by (simp add: fileParseVolumeID_def split: if_splits)
    next
      fix b c
      assume r: "r = b @ CHR ''/'' # c" and nb: "CHR ''/'' \<notin> set b"
        and sp2: "SplitN2 r (CHR ''/'') = [b, c]"
      from l sp sp2 have "a \<noteq> [] \<and> b \<noteq> [] \<and> c \<noteq> [] \<and>
          v = \<lparr>datastoreID = a, contentType = b, fileName = c\<rparr>"
        by (auto simp: fileParseVolumeID_def split: if_splits)
      with s r na nb show ?R by blast
    qed
  qed
next
  assume ?R
  then obtain a b c where s: "s = a @ CHR '':'' # b @ CHR ''/'' # c"
    and na: "CHR '':'' \<notin> set a" and nb: "CHR ''/'' \<notin> set b"
    and ne: "a \<noteq> []" "b \<noteq> []" "c \<noteq> []"
    and v: "v = \<lparr>datastoreID = a, contentType = b, fileName = c\<rparr>" by blast
  have s1: "SplitN2 s (CHR '':'') = [a, b @ CHR ''/'' # c]"
    unfolding s using na by (rule SplitN2_first)
  have s2: "SplitN2 (b @ CHR ''/'' # c) (CHR ''/'') = [b, c]"
    using nb by (rule SplitN2_first)
  show ?L using ne by (simp add: fileParseVolumeID_def s1 s2 v)
qed

lemma String_of_parsed: "fileParseVolumeID s = Inr v \<Longrightarrow> String v = s"
  by (auto simp: fileParseVolumeID_accepts String_def)

text \<open>
  C8. Parsing splits at the first colon and then splits the rest at the first slash,
  and accepts exactly the texts in which the three parts so obtained are non-empty.
  Each of the texts \<open>""\<close>, \<open>"a"\<close>, \<open>"a:"\<close>, \<open>"a:b"\<close>, \<open>"a:b/"\<close> and \<open>":/x"\<close> is
  rejected, and every rejection carries the error that names the text and the format
  \<open>datastore_id:content_type/file_name\<close>.
\<close>

theorem parse_rejects_malformed:
  "fileParseVolumeID [] =
     Inl ''unexpected format of ID (), expected datastore_id:content_type/file_name'' \<and>
   fileParseVolumeID ''a'' =
     Inl ''unexpected format of ID (a), expected datastore_id:content_type/file_name'' \<and>
   fileParseVolumeID ''a:'' =
     Inl ''unexpected format of ID (a:), expected datastore_id:content_type/file_name'' \<and>
   fileParseVolumeID ''a:b'' =
     Inl ''unexpected format of ID (a:b), expected datastore_id:content_type/file_name'' \<and>
   fileParseVolumeID ''a:b/'' =
     Inl ''unexpected format of ID (a:b/), expected datastore_id:content_type/file_name'' \<and>
   fileParseVolumeID '':/x'' =
     Inl ''unexpected format of ID (:/x), expected datastore_id:content_type/file_name'' \<and>
   (\<forall>s e. fileParseVolumeID s = Inl e \<longrightarrow>
      e = ''unexpected format of ID ('' @ s @
          ''), expected datastore_id:content_type/file_name'') \<and>
   (\<forall>s v. fileParseVolumeID s = Inr v \<longleftrightarrow>
      (\<exists>a b c. s = a @ '':'' @ b @ ''/'' @ c \<and>
         CHR '':'' \<notin> set a \<and> CHR ''/'' \<notin> set b \<and> a \<noteq> [] \<and> b \<noteq> [] \<and> c \<noteq> [] \<and>
         v = \<lparr>datastoreID = a, contentType = b, fileName = c\<rparr>))"
proof -
  have ex: "fileParseVolumeID [] = Inl (unexpected_volume_id [])"
    "fileParseVolumeID ''a'' = Inl (unexpected_volume_id ''a'')"
    "fileParseVolumeID ''a:'' = Inl (unexpected_volume_id ''a:'')"
    "fileParseVolumeID ''a:b'' = Inl (unexpected_volume_id ''a:b'')"
    "fileParseVolumeID ''a:b/'' = Inl (unexpected_volume_id ''a:b/'')"
    "fileParseVolumeID '':/x'' = Inl (unexpected_volume_id '':/x'')"
    by (simp_all add: fileParseVolumeID_def SplitN2_def)
  have err: "\<forall>s e. fileParseVolumeID s = Inl e \<longrightarrow>
      e = ''unexpected format of ID ('' @ s @
          ''), expected datastore_id:content_type/file_name''"
    using fileParseVolumeID_error by (simp add: unexpected_volume_id_def)
  have acc: "\<forall>s v. fileParseVolumeID s = Inr v \<longleftrightarrow>
      (\<exists>a b c. s = a @ '':'' @ b @ ''/'' @ c \<and>
         CHR '':'' \<notin> set a \<and> CHR ''/'' \<notin> set b \<and> a \<noteq> [] \<and> b \<noteq> [] \<and> c \<noteq> [] \<and>
         v = \<lparr>datastoreID = a, contentType = b, fileName = c\<rparr>)"
    using fileParseVolumeID_accepts by simp
  from ex err acc show ?thesis by (simp add: unexpected_volume_id_def)
qed

theorem parse_rejects_malformed_witness:
  "fileParseVolumeID ''x:y:z'' =
     Inl ''unexpected format of ID (x:y:z), expected datastore_id:content_type/file_name''"
proof -
  have "\<exists>e. fileParseVolumeID ''x:y:z'' = Inl e"
    by (simp add: fileParseVolumeID_def SplitN2_def)
  then obtain e where e: "fileParseVolumeID ''x:y:z'' = Inl e" by blast
  with parse_rejects_malformed have
    "e = ''unexpected format of ID ('' @ ''x:y:z'' @
         ''), expected datastore_id:content_type/file_name''"
    by blast
  with e show ?thesis by simp
qed

section \<open>Drift of an externally owned source\<close>

lemma read_source_attrs_changed:
  "source_file d = b # bs \<Longrightarrow>
   map sf_changed (source_file (read_source_attrs (md, sz, tg, err) d)) =
     ((md = [] \<and> sz = 0 \<and> tg = [] \<and>
       file_modification_date d \<noteq> [] \<and> file_size d \<noteq> 0 \<and> file_tag d \<noteq> [])
      # map sf_changed bs)"
  by (auto simp: read_source_attrs_def drift_changed_def Let_def)

text \<open>
  C1. The resource recorded modification date \<open>2024-01-01T00:00:00Z\<close>, size 10 and tag
  \<open>t1\<close>; the source now reports \<open>2024-01-02T00:00:00Z\<close>, 10, \<open>t1\<close>. The read stores
  the new attributes before it reads the recorded ones back for the comparison, so it
  compares the new attributes with themselves: the read succeeds, the recorded date is
  replaced and the \<open>changed\<close> flag of the source block is false.
\<close>

theorem drift_newer_source_not_changed:
  "outcome (fileRead None (Inr drift_listing) drift_fresh drift_recorded) = Return [] \<and>
   map sf_changed
     (source_file (rdata (fileRead None (Inr drift_listing) drift_fresh drift_recorded))) =
     [False] \<and>
   file_modification_date (rdata (fileRead None (Inr drift_listing) drift_fresh drift_recorded))
     = ''2024-01-02T00:00:00Z''"
  by (simp add: fileRead_def drift_recorded_def drift_listing_def drift_fresh_def
        example_file_block_def read_source_attrs_def drift_changed_def
        fileParseVolumeID_def SplitN2_def FromErr_def HasError_def Let_def)

section \<open>Delete\<close>

text \<open>
  C9, as stated, fails: when the backend refuses the delete with an error other than
  not-found, delete returns that error and the identifier stays.
\<close>

theorem delete_refused_keeps_identifier:
  "outcome (fileDelete None refuse_delete drift_recorded) =
     Return [Diag Error (Text ''permission denied'')] \<and>
   res_id (rdata (fileDelete None refuse_delete drift_recorded)) = ''local:iso/a.iso''"
  by (simp add: fileDelete_def drift_recorded_def refuse_delete_def FromErr_def)

text \<open>
  C9, amended. Deleting an identifier that the backend reports as not found returns
  success, as a delete that the backend performs does, and in both cases the
  identifier is cleared. When the client cannot be obtained or the backend answers
  with another error, delete returns that error and leaves the resource data as it
  was.
\<close>

theorem delete_idempotent:
  "(del (res_id d) = Some e \<and> is_does_not_exist e \<longrightarrow>
      outcome (fileDelete None del d) = Return [] \<and>
      res_id (rdata (fileDelete None del d)) = []) \<and>
   (del (res_id d) = None \<longrightarrow>
      outcome (fileDelete None del d) = Return [] \<and>
      res_id (rdata (fileDelete None del d)) = []) \<and>
   (del (res_id d) = Some e \<and> \<not> is_does_not_exist e \<longrightarrow>
      outcome (fileDelete None del d) = Return [Diag Error (Text (err_text e))] \<and>
      rdata (fileDelete None del d) = d) \<and>
   outcome (fileDelete (Some c) del d) = Return [Diag Error (Text c)] \<and>
   rdata (fileDelete (Some c) del d) = d \<and>
   events (fileDelete (Some c) del d) = []"
  by (simp add: fileDelete_def FromErr_def)

theorem delete_idempotent_witness:
  "outcome (fileDelete None absent_delete drift_recorded) = Return [] \<and>
   res_id (rdata (fileDelete None absent_delete drift_recorded)) = []"
  using delete_idempotent
    [of absent_delete drift_recorded
        "\<lparr>err_text = ''the requested resource does not exist'', is_does_not_exist = True\<rparr>"]
  by (simp add: absent_delete_def)

section \<open>Inference of the content type\<close>

text \<open>
  C5, as stated, fails on the name that is classified: it is the path of the file
  source as configured, not the resolved file name. For the path \<open>/tmp/blob\<close> with the
  file name \<open>x.iso\<close> the resolved name is \<open>x.iso\<close>, which the rules take to \<open>iso\<close>,
  and the content type is not determined.
\<close>

theorem override_name_not_classified:
  "fileGetSourceFileName (parseURI (example_env [] [])) (file_resource ''/tmp/blob'' ''x.iso'' [])
     = Inr ''x.iso'' \<and>
   infer_content_type (lowerUnicode (example_env [] [])) False ''x.iso'' = ''iso'' \<and>
   fileGetContentType (lowerUnicode (example_env [] [])) known_content_type False (Some True)
       (file_resource ''/tmp/blob'' ''x.iso'' []) =
     (None, [Diag Error (Text ''cannot determine the content type of source \"/tmp/blob\" - Please manually define the \"content_type\" argument'')])"
  by (simp add: create_defs example_defs byte_defs)

text \<open>
  C5, amended. When no content type is configured, the classifier examines the path of
  the file source as configured (or, without a file source, the file name of the raw
  source), in this order: a text ending in \<open>.tar.gz\<close> or \<open>.tar.xz\<close> gives \<open>vztmpl\<close>
  whatever the capability flag; else, only when the backend version supports the import
  content type, a text ending in \<open>.qcow2\<close>, \<open>.raw\<close> or \<open>.vmdk\<close> gives \<open>import\<close>;
  else the extension of its last element, lowered as strings.ToLower lowers it (byte by
  byte when the extension is in ASCII), gives \<open>iso\<close> for \<open>img\<close> and \<open>iso\<close> and
  \<open>snippets\<close> for \<open>yaml\<close> and \<open>yml\<close>; every other text (also one ending in
  \<open>.qcow2\<close> when the flag is false) fails with the error that asks for the
  \<open>content_type\<close> argument.
\<close>

theorem content_type_inference:
  assumes "content_type d = []" and "content_source_path d = Some p"
  shows
   "(HasSuffix p ''.tar.gz'' \<or> HasSuffix p ''.tar.xz'' \<longrightarrow>
       fileGetContentType low val minImp ver d = (Some ''vztmpl'', val ''vztmpl'')) \<and>
    (\<not> (HasSuffix p ''.tar.gz'' \<or> HasSuffix p ''.tar.xz'') \<and>
     (case ver of Some b \<Rightarrow> b | None \<Rightarrow> minImp) \<and>
     (HasSuffix p ''.qcow2'' \<or> HasSuffix p ''.raw'' \<or> HasSuffix p ''.vmdk'') \<longrightarrow>
       fileGetContentType low val minImp ver d = (Some ''import'', val ''import'')) \<and>
    (\<not> (HasSuffix p ''.tar.gz'' \<or> HasSuffix p ''.tar.xz'') \<and>
     \<not> ((case ver of Some b \<Rightarrow> b | None \<Rightarrow> minImp) \<and>
        (HasSuffix p ''.qcow2'' \<or> HasSuffix p ''.raw'' \<or> HasSuffix p ''.vmdk'')) \<longrightarrow>
       (TrimLeft (ToLower low (Ext p)) (CHR ''.'') \<in> {''img'', ''iso''} \<longrightarrow>
          fileGetContentType low val minImp ver d = (Some ''iso'', val ''iso'')) \<and>
       (TrimLeft (ToLower low (Ext p)) (CHR ''.'') \<in> {''yaml'', ''yml''} \<longrightarrow>
          fileGetContentType low val minImp ver d = (Some ''snippets'', val ''snippets'')) \<and>
       (TrimLeft (ToLower low (Ext p)) (CHR ''.'') \<notin> {''img'', ''iso'', ''yaml'', ''yml''} \<longrightarrow>
          fileGetContentType low val minImp ver d =
            (None, [Diag Error (Text
               (''cannot determine the content type of source \"'' @ p @
                ''\" - Please manually define the \"content_type\" argument''))]))) \<and>
    (ascii (Ext p) \<longrightarrow> ToLower low (Ext p) = map lower_byte (Ext p))"
  using assms
  by (auto simp: fileGetContentType_def infer_content_type_def cannot_determine_def
        Errorf_def Let_def ToLower_def)

theorem content_type_inference_witness:
  "fileGetContentType (\<lambda>s. s) known_content_type False (Some True)
     (raw_resource [] ''disk.qcow2'' 0) = (Some ''import'', []) \<and>
   fileGetContentType (\<lambda>s. s) known_content_type False (Some False)
     (raw_resource [] ''disk.qcow2'' 0) =
     (None, [Diag Error (Text ''cannot determine the content type of source \"disk.qcow2\" - Please manually define the \"content_type\" argument'')]) \<and>
   fileGetContentType (\<lambda>s. s) known_content_type False (Some False)
     (raw_resource [] ''tmpl.tar.gz'' 0) = (Some ''vztmpl'', []) \<and>
   fileGetContentType (\<lambda>s. s) known_content_type False None
     (raw_resource [] ''cloud-init.yaml'' 0) = (Some ''snippets'', []) \<and>
   fileGetContentType (\<lambda>s. s) known_content_type False None
     (raw_resource [] ''unknown.xyz'' 0) =
     (None, [Diag Error (Text ''cannot determine the content type of source \"unknown.xyz\" - Please manually define the \"content_type\" argument'')]) \<and>
   fileGetContentType (\<lambda>s. s) known_content_type False None
     (file_resource [CHR ''/'', CHR ''d'', CHR 0xC3, CHR 0xA9, CHR ''/'', CHR ''A'', CHR ''.'',
                     CHR ''I'', CHR ''S'', CHR ''O''] [] []) = (Some ''iso'', [])"
proof -
  have a: "content_type (raw_resource [] nm 0) = []" for nm
    by (simp add: raw_resource_def)
  have b: "content_source_path (raw_resource [] nm 0) = Some nm" for nm
    by (simp add: raw_resource_def content_source_path_def)
  have 1: "fileGetContentType (\<lambda>s. s) known_content_type False (Some True)
             (raw_resource [] ''disk.qcow2'' 0) = (Some ''import'', [])"
    using content_type_inference
      [OF a b, of "''disk.qcow2''" "\<lambda>s. s" known_content_type False "Some True"]
    by (simp add: suffix_defs known_content_type_def)
  have 2: "fileGetContentType (\<lambda>s. s) known_content_type False (Some False)
             (raw_resource [] ''disk.qcow2'' 0) =
     (None, [Diag Error (Text ''cannot determine the content type of source \"disk.qcow2\" - Please manually define the \"content_type\" argument'')])"
    using content_type_inference
      [OF a b, of "''disk.qcow2''" "\<lambda>s. s" known_content_type False "Some False"]
    by (simp add: suffix_defs known_content_type_def byte_defs)
  have 3: "fileGetContentType (\<lambda>s. s) known_content_type False (Some False)
             (raw_resource [] ''tmpl.tar.gz'' 0) = (Some ''vztmpl'', [])"
    using content_type_inference
      [OF a b, of "''tmpl.tar.gz''" "\<lambda>s. s" known_content_type False "Some False"]
    by (simp add: suffix_defs known_content_type_def)
  have 4: "fileGetContentType (\<lambda>s. s) known_content_type False None
             (raw_resource [] ''cloud-init.yaml'' 0) = (Some ''snippets'', [])"
    using content_type_inference
      [OF a b, of "''cloud-init.yaml''" "\<lambda>s. s" known_content_type False None]
    by (simp add: suffix_defs known_content_type_def byte_defs)
  have 5: "fileGetContentType (\<lambda>s. s) known_content_type False None
             (raw_resource [] ''unknown.xyz'' 0) =
     (None, [Diag Error (Text ''cannot determine the content type of source \"unknown.xyz\" - Please manually define the \"content_type\" argument'')])"
    using content_type_inference
      [OF a b, of "''unknown.xyz''" "\<lambda>s. s" known_content_type False None]
    by (simp add: suffix_defs known_content_type_def byte_defs)
  let ?p = "[CHR ''/'', CHR ''d'', CHR 0xC3, CHR 0xA9, CHR ''/'', CHR ''A'', CHR ''.'',
             CHR ''I'', CHR ''S'', CHR ''O'']"
  have c: "content_type (file_resource ?p [] []) = []"
    "content_source_path (file_resource ?p [] []) = Some ?p"
    by (simp_all add: file_resource_def content_source_path_def)
  have 6: "fileGetContentType (\<lambda>s. s) known_content_type False None
             (file_resource ?p [] []) = (Some ''iso'', [])"
    using content_type_inference [OF c, of "\<lambda>s. s" known_content_type False None]
    by (simp add: suffix_defs known_content_type_def byte_defs)
  from 1 2 3 4 5 6 show ?thesis by blast
qed

section \<open>The check of the names\<close>

lemma HasError_append [simp]: "HasError (xs @ ys) = (HasError xs \<or> HasError ys)"
  by (simp add: HasError_def)

lemma HasError_Nil [simp]: "\<not> HasError []"
  by (simp add: HasError_def)

lemma HasError_warnings [simp]: "\<not> HasError (map (\<lambda>x. Diag Warning (f x)) xs)"
  by (induction xs) (simp_all add: HasError_def)

lemma HasError_FromErr [simp]: "HasError (FromErr (Some e))"
  by (simp add: HasError_def FromErr_def)

lemma HasError_Errorf [simp]: "HasError (Errorf m)"
  by (simp add: HasError_def Errorf_def)

lemma collision_loop_overwrite:
  "collision_loop True name files dg = Inr (dg @ overwrite_warnings name files)"
  by (induction files arbitrary: dg)
     (auto simp: overwrite_warnings_def same_named_def String_of_parsed split: sum.splits)

lemma collision_loop_none:
  "\<not> list_ex (same_named name) files \<Longrightarrow> collision_loop ow name files dg = Inr dg"
  by (induction files arbitrary: dg) (auto simp: same_named_def split: sum.splits)

lemma collision_loop_filter:
  "collision_loop ow name (filter (\<lambda>f. \<not> same_named name f) files) dg = Inr dg"
  by (rule collision_loop_none) (simp add: list_ex_iff)

lemma collision_loop_stop:
  "list_ex (same_named name) files \<Longrightarrow>
   \<exists>f v. f \<in> set files \<and> same_named name f \<and> find (same_named name) files = Some f \<and>
         String v = VolumeID f \<and> collision_loop False name files dg = Inl v"
proof (induction files arbitrary: dg)
  case Nil
  then show ?case by simp
next
  case (Cons a files)
  show ?case
  proof (cases "same_named name a")
    case True
    then obtain v where v: "fileParseVolumeID (VolumeID a) = Inr v" "fileName v = name"
      by (auto simp: same_named_def split: sum.splits)
    then have "collision_loop False name (a # files) dg = Inl v" by simp
    moreover from v have "String v = VolumeID a" by (simp add: String_of_parsed)
    ultimately show ?thesis using True by auto
  next
    case False
    with Cons.prems have "list_ex (same_named name) files" by simp
    from Cons.IH [OF this, of dg] obtain f v where
      "f \<in> set files" "same_named name f" "find (same_named name) files = Some f"
      "String v = VolumeID f" "collision_loop False name files dg = Inl v" by blast
    moreover from False have "collision_loop False name (a # files) dg =
        collision_loop False name files dg"
      by (auto simp: same_named_def split: sum.splits)
    ultimately show ?thesis using False by auto
  qed
qed

lemma both_sources_stop:
  "source_file d \<noteq> [] \<Longrightarrow> source_raw d \<noteq> [] \<Longrightarrow>
   create_from_sources env d name ctype st =
     \<lparr>outcome = Return (c_diags st @ [Diag Error conflicting_source]),
      events = c_events st @ c_defers st, rdata = d\<rparr>"
  by (simp add: create_from_sources_def add_diags_def finish_def Errorf_def HasError_def Let_def)

section \<open>Diagnostics that are no errors do not change a create\<close>

lemmas sim_defs = same_but_diags_def run_sim_def succeeded_def panicked_def finish_def
  emit_def add_diags_def

lemma download_sim:
  "same_but_diags st st' \<Longrightarrow> stage_sim (download env d b st) (download env d b st')"
  by (auto simp: download_def stage_sim_def sim_defs Let_def split: option.splits sum.splits)

lemma verify_checksum_sim:
  "same_but_diags st st' \<Longrightarrow>
   step_sim (verify_checksum env d b p st) (verify_checksum env d b p st')"
  by (auto simp: verify_checksum_def step_sim_def sim_defs Let_def
           split: option.splits sum.splits)

lemma write_raw_sim:
  "same_but_diags st st' \<Longrightarrow> stage_sim (write_raw env d r st) (write_raw env d r st')"
  by (auto simp: write_raw_def stage_sim_def sim_defs Let_def FromErr_def
           split: option.splits sum.splits)

lemma upload_api_sim:
  "same_but_diags st st' \<Longrightarrow>
   step_sim (upload_api env d request st) (upload_api env d request st')"
  by (auto simp: upload_api_def step_sim_def sim_defs split: option.splits)

lemma upload_ssh_sim:
  "same_but_diags st st' \<Longrightarrow>
   step_sim (upload_ssh env d ct request st) (upload_ssh env d ct request st')"
  by (auto simp: upload_ssh_def step_sim_def sim_defs Let_def split: option.splits sum.splits)

lemma emit_sim: "same_but_diags st st' \<Longrightarrow> same_but_diags (emit e st) (emit e st')"
  by (simp add: same_but_diags_def emit_def)

lemma upload_sim:
  assumes "same_but_diags st st'"
  shows "step_sim (upload env d name ctype p st) (upload env d name ctype p st')"
proof -
  from assms have f: "c_files st' = c_files st" by (simp add: same_but_diags_def)
  note e = emit_sim [OF assms, of "EvOpen p"]
  show ?thesis
  proof (cases "c_files st p")
    case (Inl err)
    with assms f show ?thesis
      by (simp add: upload_def step_sim_def sim_defs)
  next
    case (Inr content)
    show ?thesis
    proof (cases ctype)
      case None
      with Inr assms f show ?thesis
        by (simp add: upload_def step_sim_def sim_defs)
    next
      case (Some ct)
      with Inr f upload_api_sim [OF e] upload_ssh_sim [OF e] show ?thesis
        by (simp add: upload_def)
    qed
  qed
qed

lemma read_back_sim:
  "same_but_diags st st' \<Longrightarrow> run_sim (read_back env d st) (read_back env d st')"
  by (auto simp: read_back_def sim_defs Let_def
           split: option.splits sum.splits prod.splits outcome.splits)

lemma stage_sim_bind:
  assumes "stage_sim x y"
    and "\<And>s s' p. same_but_diags s s' \<Longrightarrow> run_sim (k s p) (k s' p)"
  shows "run_sim (case x of Inl r \<Rightarrow> r | Inr (s, p) \<Rightarrow> k s p)
                 (case y of Inl r \<Rightarrow> r | Inr (s, p) \<Rightarrow> k s p)"
  using assms by (cases x; cases y) (auto simp: stage_sim_def split: prod.splits)

lemma step_sim_bind:
  assumes "step_sim x y"
    and "\<And>s s'. same_but_diags s s' \<Longrightarrow> run_sim (k s) (k s')"
  shows "run_sim (case x of Inl r \<Rightarrow> r | Inr s \<Rightarrow> k s)
                 (case y of Inl r \<Rightarrow> r | Inr s \<Rightarrow> k s)"
  using assms by (cases x; cases y) (auto simp: step_sim_def)

lemma file_stage_sim:
  assumes "same_but_diags st st'"
  shows "stage_sim (file_stage env d st) (file_stage env d st')"
proof (cases "source_file d")
  case Nil
  with assms show ?thesis by (simp add: file_stage_def stage_sim_def)
next
  case (Cons b bs)
  note dl = download_sim [OF assms, of env d b]
  show ?thesis
  proof (cases "download env d b st")
    case (Inl r)
    with dl Cons show ?thesis
      by (auto simp: file_stage_def stage_sim_def split: sum.splits)
  next
    case (Inr a)
    with dl obtain a' where a': "download env d b st' = Inr a'" "snd a = snd a'"
      "same_but_diags (fst a) (fst a')"
      by (auto simp: stage_sim_def split: sum.splits)
    from verify_checksum_sim [OF a'(3), of env d b "snd a"] Inr a' Cons
    show ?thesis
      by (auto simp: file_stage_def stage_sim_def step_sim_def split: sum.splits prod.splits)
  qed
qed

lemma raw_stage_sim:
  assumes "same_but_diags st st'"
  shows "stage_sim (raw_stage env d st p) (raw_stage env d st' p)"
proof (cases "source_raw d")
  case Nil
  with assms show ?thesis by (simp add: raw_stage_def stage_sim_def)
next
  case (Cons r rs)
  with write_raw_sim [OF assms, of env d r] show ?thesis by (simp add: raw_stage_def)
qed

lemma create_from_sources_sim:
  assumes "same_but_diags st st'"
  shows "run_sim (create_from_sources env d name ctype st)
                 (create_from_sources env d name ctype st')"
proof -
  let ?c = "\<lambda>s. if source_file d \<noteq> [] \<and> source_raw d \<noteq> []
                 then add_diags (Errorf conflicting_source) s else s"
  have c: "same_but_diags (?c st) (?c st')"
    using assms by (simp add: same_but_diags_def add_diags_def)
  then have he: "HasError (c_diags (?c st)) = HasError (c_diags (?c st'))"
    by (simp add: same_but_diags_def)
  show ?thesis
  proof (cases "HasError (c_diags (?c st))")
    case True
    with he c show ?thesis
      by (simp add: create_from_sources_def Let_def sim_defs del: HasError_append)
  next
    case False
    with he have f': "\<not> HasError (c_diags (?c st'))" by simp
    have "run_sim
       (case file_stage env d (?c st) of
          Inl r \<Rightarrow> r
        | Inr (st2, p) \<Rightarrow>
            (case raw_stage env d st2 p of
               Inl r \<Rightarrow> r
             | Inr (st3, p3) \<Rightarrow>
                 (case upload env d name ctype p3 st3 of
                    Inl r \<Rightarrow> r | Inr st4 \<Rightarrow> read_back env d st4)))
       (case file_stage env d (?c st') of
          Inl r \<Rightarrow> r
        | Inr (st2, p) \<Rightarrow>
            (case raw_stage env d st2 p of
               Inl r \<Rightarrow> r
             | Inr (st3, p3) \<Rightarrow>
                 (case upload env d name ctype p3 st3 of
                    Inl r \<Rightarrow> r | Inr st4 \<Rightarrow> read_back env d st4)))"
    proof (rule stage_sim_bind [OF file_stage_sim [OF c]])
      fix s s' p
      assume s: "same_but_diags s s'"
      show "run_sim
         (case raw_stage env d s p of
            Inl r \<Rightarrow> r
          | Inr (st3, p3) \<Rightarrow>
              (case upload env d name ctype p3 st3 of
                 Inl r \<Rightarrow> r | Inr st4 \<Rightarrow> read_back env d st4))
         (case raw_stage env d s' p of
            Inl r \<Rightarrow> r
          | Inr (st3, p3) \<Rightarrow>
              (case upload env d name ctype p3 st3 of
                 Inl r \<Rightarrow> r | Inr st4 \<Rightarrow> read_back env d st4))"
      proof (rule stage_sim_bind [OF raw_stage_sim [OF s]])
        fix t t' q
        assume t: "same_but_diags t t'"
        show "run_sim
           (case upload env d name ctype q t of Inl r \<Rightarrow> r | Inr st4 \<Rightarrow> read_back env d st4)
           (case upload env d name ctype q t' of Inl r \<Rightarrow> r | Inr st4 \<Rightarrow> read_back env d st4)"
          by (rule step_sim_bind [OF upload_sim [OF t]]) (rule read_back_sim)
      qed
    qed
    with False f' show ?thesis
      by (simp add: create_from_sources_def Let_def del: HasError_append)
  qed
qed

section \<open>What a create returns\<close>

lemmas ok_defs = FromErr_def Errorf_def grows_def extends_def ends_from_def ends_keeping_def quiet_def uploaded_def
  starts_with_def finish_def emit_def add_diags_def

lemma starts_with_trans:
  assumes "starts_with a b" and "starts_with b c"
  shows "starts_with a c"
proof -
  from assms(1) obtain x where b: "b = a @ x"
    unfolding starts_with_def by (metis append_take_drop_id)
  from assms(2) obtain y where c: "c = b @ y"
    unfolding starts_with_def by (metis append_take_drop_id)
  show ?thesis by (simp add: starts_with_def b c)
qed

lemma extends_trans: "extends a b \<Longrightarrow> extends b c \<Longrightarrow> extends a c"
  by (auto simp: extends_def intro: starts_with_trans)

lemma grows_refl: "grows st st"
  by (simp add: grows_def extends_def starts_with_def)

lemma grows_trans: "grows a b \<Longrightarrow> grows b c \<Longrightarrow> grows a c"
  by (auto simp: grows_def intro: extends_trans)

lemma grows_ends: "grows a b \<Longrightarrow> ends_from b r \<Longrightarrow> ends_from a r"
  by (auto simp: grows_def extends_def ends_from_def intro: starts_with_trans)

lemma extends_keeping: "extends a b \<Longrightarrow> ends_keeping b r \<Longrightarrow> ends_from a r"
  by (auto simp: extends_def ends_keeping_def ends_from_def intro: starts_with_trans)

lemma download_ok: "stage_ok st (download env d b st)"
  by (auto simp: download_def stage_ok_def ok_defs Let_def split: option.splits sum.splits)

lemma verify_checksum_ok: "step_ok st (verify_checksum env d b p st)"
  by (auto simp: verify_checksum_def step_ok_def ok_defs checksum_mismatch_def Let_def
           split: option.splits sum.splits)

lemma write_raw_ok: "stage_ok st (write_raw env d r st)"
  by (auto simp: write_raw_def stage_ok_def ok_defs Let_def split: option.splits sum.splits)

lemma upload_api_ok: "upload_step_ok st (upload_api env d request st)"
  by (auto simp: upload_api_def upload_step_ok_def ok_defs split: option.splits)

lemma upload_ssh_ok: "upload_step_ok st (upload_ssh env d ct request st)"
  by (auto simp: upload_ssh_def upload_step_ok_def ok_defs Let_def
           split: option.splits sum.splits)

lemma emit_grows: "\<not> is_upload e \<Longrightarrow> grows st (emit e st)"
  by (simp add: ok_defs)

lemma upload_step_ok_grows: "grows a b \<Longrightarrow> upload_step_ok b x \<Longrightarrow> upload_step_ok a x"
  by (cases x) (auto simp: upload_step_ok_def grows_def intro: grows_ends extends_trans)

lemma upload_ok: "upload_step_ok st (upload env d name ctype p st)"
proof -
  have g: "grows st (emit (EvOpen p) st)" by (rule emit_grows) simp
  show ?thesis
  proof (cases "c_files st p")
    case (Inl err)
    then show ?thesis by (auto simp: upload_def upload_step_ok_def ok_defs)
  next
    case (Inr content)
    show ?thesis
    proof (cases ctype)
      case None
      with Inr show ?thesis by (auto simp: upload_def upload_step_ok_def ok_defs)
    next
      case (Some ct)
      with Inr upload_step_ok_grows [OF g upload_api_ok]
        upload_step_ok_grows [OF g upload_ssh_ok]
      show ?thesis by (simp add: upload_def)
    qed
  qed
qed

lemma read_back_ok: "ends_keeping st (read_back env d st)"
  by (auto simp: read_back_def ok_defs Let_def
           split: option.splits sum.splits prod.splits outcome.splits)

lemma stage_ok_bind:
  assumes "stage_ok st x" and "\<And>s p. ends_from s (k s p)"
  shows "ends_from st (case x of Inl r \<Rightarrow> r | Inr (s, p) \<Rightarrow> k s p)"
  using assms by (cases x) (auto simp: stage_ok_def intro: grows_ends split: prod.splits)

lemma file_stage_ok: "stage_ok st (file_stage env d st)"
proof (cases "source_file d")
  case Nil
  then show ?thesis by (simp add: file_stage_def stage_ok_def grows_refl)
next
  case (Cons b bs)
  show ?thesis
  proof (cases "download env d b st")
    case (Inl r)
    with download_ok [of st env d b] Cons show ?thesis
      by (simp add: file_stage_def stage_ok_def)
  next
    case (Inr a)
    with download_ok [of st env d b] have g: "grows st (fst a)"
      by (simp add: stage_ok_def)
    from verify_checksum_ok [of "fst a" env d b "snd a"] g Inr Cons show ?thesis
      by (cases "verify_checksum env d b (snd a) (fst a)")
         (auto simp: file_stage_def stage_ok_def step_ok_def split: prod.splits
               intro: grows_ends grows_trans)
  qed
qed

lemma raw_stage_ok: "stage_ok st (raw_stage env d st p)"
proof (cases "source_raw d")
  case Nil
  then show ?thesis by (simp add: raw_stage_def stage_ok_def grows_refl)
next
  case (Cons r rs)
  with write_raw_ok [of st env d r] show ?thesis by (simp add: raw_stage_def)
qed

lemma upload_then_read_ok:
  "ends_from st
     (case upload env d name ctype p st of Inl r \<Rightarrow> r | Inr st4 \<Rightarrow> read_back env d st4)"
  using upload_ok [of st env d name ctype p]
  by (cases "upload env d name ctype p st")
     (auto simp: upload_step_ok_def intro: extends_keeping read_back_ok)

lemma create_from_sources_ok: "ends_from st (create_from_sources env d name ctype st)"
proof -
  let ?c = "if source_file d \<noteq> [] \<and> source_raw d \<noteq> []
            then add_diags (Errorf conflicting_source) st else st"
  have g: "grows st ?c" by (auto simp: ok_defs)
  show ?thesis
  proof (cases "HasError (c_diags ?c)")
    case True
    have "ends_from ?c (finish ?c d (Return (c_diags ?c)))"
      by (simp add: ends_from_def starts_with_def finish_def)
    with True grows_ends [OF g] show ?thesis
      by (simp add: create_from_sources_def Let_def del: HasError_append)
  next
    case False
    have "ends_from ?c
       (case file_stage env d ?c of
          Inl r \<Rightarrow> r
        | Inr (st2, p) \<Rightarrow>
            (case raw_stage env d st2 p of
               Inl r \<Rightarrow> r
             | Inr (st3, p3) \<Rightarrow>
                 (case upload env d name ctype p3 st3 of
                    Inl r \<Rightarrow> r | Inr st4 \<Rightarrow> read_back env d st4)))"
      by (rule stage_ok_bind [OF file_stage_ok])
         (rule stage_ok_bind [OF raw_stage_ok], rule upload_then_read_ok)
    with False grows_ends [OF g] show ?thesis
      by (simp add: create_from_sources_def Let_def del: HasError_append)
  qed
qed

section \<open>Create behind the listing\<close>

lemma fileCreate_listed:
  assumes "fileGetSourceFileName (parseURI env) d = Inr name" and "getClient env = None"
    and "listing1 env = Inr files"
  shows "fileCreate env d =
     (case collision_loop (get_overwrite d) name files
             (snd (fileGetContentType (lowerUnicode env) (ctValidator env) (minImport env) (version1 env) d)) of
        Inl volumeID \<Rightarrow>
          \<lparr>outcome = Return (Errorf (FileAlreadyExists (String volumeID))),
           events = [EvVersion, EvListFiles], rdata = d\<rparr>
      | Inr diags \<Rightarrow>
          create_from_sources env d name
            (fst (fileGetContentType (lowerUnicode env) (ctValidator env) (minImport env) (version1 env) d))
            (initial_state env diags))"
  using assms
  by (cases "fileGetContentType (lowerUnicode env) (ctValidator env) (minImport env) (version1 env) d")
     (simp add: fileCreate_def initial_state_def cong: sum.case_cong)

lemma stages_listing1:
  "download (env\<lparr>listing1 := x\<rparr>) d b st = download env d b st"
  "verify_checksum (env\<lparr>listing1 := x\<rparr>) d b p st = verify_checksum env d b p st"
  "write_raw (env\<lparr>listing1 := x\<rparr>) d r st = write_raw env d r st"
  "upload_api (env\<lparr>listing1 := x\<rparr>) d request st = upload_api env d request st"
  "upload_ssh (env\<lparr>listing1 := x\<rparr>) d ct request st = upload_ssh env d ct request st"
  "read_back (env\<lparr>listing1 := x\<rparr>) d st = read_back env d st"
  by (simp_all add: download_def verify_checksum_def write_raw_def upload_api_def
        upload_ssh_def read_back_def
        cong: sum.case_cong option.case_cong prod.case_cong if_cong)

lemma create_from_sources_listing1:
  "create_from_sources (env\<lparr>listing1 := x\<rparr>) d name ctype st =
   create_from_sources env d name ctype st"
  by (simp add: create_from_sources_def file_stage_def raw_stage_def upload_def
        stages_listing1
        cong: sum.case_cong option.case_cong prod.case_cong list.case_cong if_cong)

lemma fileCreate_events_start:
  "events (fileCreate env d) = [] \<or> starts_with [EvVersion, EvListFiles] (events (fileCreate env d))"
proof -
  have "starts_with [EvVersion, EvListFiles]
          (events (create_from_sources env d name ctype (initial_state env diags)))"
    for name ctype diags
    using create_from_sources_ok [of "initial_state env diags" env d name ctype]
    by (simp add: ends_from_def initial_state_def)
  then show ?thesis
    by (auto simp: fileCreate_def starts_with_def initial_state_def
             split: sum.splits option.splits prod.splits)
qed

lemma overwrite_proceeds:
  assumes N: "fileGetSourceFileName (parseURI env) d = Inr name" and G: "getClient env = None"
    and L: "listing1 env = Inr files" and O: "get_overwrite d"
  shows "run_sim (fileCreate env d)
           (fileCreate (env\<lparr>listing1 := Inr (filter (\<lambda>f. \<not> same_named name f) files)\<rparr>) d)"
    and "f \<in> set files \<Longrightarrow> same_named name f \<Longrightarrow> uploaded (events (fileCreate env d)) \<Longrightarrow>
         outcome (fileCreate env d) = Return ds \<Longrightarrow>
         Diag Warning (ExistingFileOverwritten (VolumeID f)) \<in> set ds"
proof -
  let ?dg = "snd (fileGetContentType (lowerUnicode env) (ctValidator env) (minImport env) (version1 env) d)"
  let ?ct = "fst (fileGetContentType (lowerUnicode env) (ctValidator env) (minImport env) (version1 env) d)"
  let ?env0 = "env\<lparr>listing1 := Inr (filter (\<lambda>f. \<not> same_named name f) files)\<rparr>"
  have r: "fileCreate env d =
      create_from_sources env d name ?ct (initial_state env (?dg @ overwrite_warnings name files))"
    using O by (simp add: fileCreate_listed [OF N G L] collision_loop_overwrite)
  have N0: "fileGetSourceFileName (parseURI ?env0) d = Inr name" using N by simp
  have G0: "getClient ?env0 = None" using G by simp
  have L0: "listing1 ?env0 = Inr (filter (\<lambda>f. \<not> same_named name f) files)" by simp
  have r0: "fileCreate ?env0 d = create_from_sources env d name ?ct (initial_state env ?dg)"
    by (simp add: fileCreate_listed [OF N0 G0 L0] collision_loop_filter
          create_from_sources_listing1 initial_state_def)
  have "same_but_diags (initial_state env (?dg @ overwrite_warnings name files))
          (initial_state env ?dg)"
    by (simp add: same_but_diags_def initial_state_def overwrite_warnings_def)
  from create_from_sources_sim [OF this] r r0
  show "run_sim (fileCreate env d) (fileCreate ?env0 d)" by simp
  assume f: "f \<in> set files" "same_named name f"
    and u: "uploaded (events (fileCreate env d))" "outcome (fileCreate env d) = Return ds"
  have q: "quiet (initial_state env (?dg @ overwrite_warnings name files))"
    by (simp add: quiet_def uploaded_def initial_state_def)
  from create_from_sources_ok
         [of "initial_state env (?dg @ overwrite_warnings name files)" env d name ?ct] q u r
  have "set (?dg @ overwrite_warnings name files) \<subseteq> set ds"
    by (simp add: ends_from_def initial_state_def)
  moreover from f have "Diag Warning (ExistingFileOverwritten (VolumeID f))
      \<in> set (overwrite_warnings name files)"
    by (auto simp: overwrite_warnings_def)
  ultimately show "Diag Warning (ExistingFileOverwritten (VolumeID f)) \<in> set ds" by auto
qed

lemma no_overwrite_stops:
  assumes N: "fileGetSourceFileName (parseURI env) d = Inr name" and G: "getClient env = None"
    and L: "listing1 env = Inr files" and O: "\<not> get_overwrite d"
    and S: "list_ex (same_named name) files"
  shows "\<exists>f. find (same_named name) files = Some f \<and>
     fileCreate env d =
       \<lparr>outcome = Return [Diag Error (FileAlreadyExists (VolumeID f))],
        events = [EvVersion, EvListFiles], rdata = d\<rparr>"
proof -
  from collision_loop_stop [OF S] obtain f v where
    "find (same_named name) files = Some f" "String v = VolumeID f"
    "collision_loop False name files
       (snd (fileGetContentType (lowerUnicode env) (ctValidator env) (minImport env) (version1 env) d)) = Inl v"
    by blast
  with O show ?thesis
    by (simp add: fileCreate_listed [OF N G L] Errorf_def)
qed

lemma overwrite_not_already_exists:
  assumes N: "fileGetSourceFileName (parseURI env) d = Inr name" and G: "getClient env = None"
    and L: "listing1 env = Inr files" and O: "get_overwrite d"
    and S: "list_ex (same_named name) files"
  shows "outcome (fileCreate env d) \<noteq> Return [Diag Error (FileAlreadyExists v)]"
proof
  let ?dg = "snd (fileGetContentType (lowerUnicode env) (ctValidator env) (minImport env) (version1 env) d)"
  let ?ct = "fst (fileGetContentType (lowerUnicode env) (ctValidator env) (minImport env) (version1 env) d)"
  assume a: "outcome (fileCreate env d) = Return [Diag Error (FileAlreadyExists v)]"
  have r: "fileCreate env d =
      create_from_sources env d name ?ct (initial_state env (?dg @ overwrite_warnings name files))"
    using O by (simp add: fileCreate_listed [OF N G L] collision_loop_overwrite)
  from S obtain f where f: "f \<in> set files" "same_named name f" by (auto simp: list_ex_iff)
  then have w: "Diag Warning (ExistingFileOverwritten (VolumeID f))
      \<in> set (overwrite_warnings name files)"
    by (auto simp: overwrite_warnings_def)
  from create_from_sources_ok
         [of "initial_state env (?dg @ overwrite_warnings name files)" env d name ?ct] a r
  have "set (?dg @ overwrite_warnings name files) \<subseteq> {Diag Error (FileAlreadyExists v)}"
    by (simp add: ends_from_def initial_state_def)
  with w show False by auto
qed

section \<open>A create that reaches the upload\<close>

lemma starts_with_set: "starts_with a b \<Longrightarrow> set a \<subseteq> set b"
  unfolding starts_with_def by (metis set_take_subset)

lemma upload_event_is_upload: "upload_event env d ct name content = Some ev \<Longrightarrow> is_upload ev"
  by (auto simp: upload_event_def split: if_splits sum.splits option.splits)

lemma upload_api_emits:
  "(case upload_api env d request st of
      Inl r \<Rightarrow> EvAPIUpload request \<in> set (events r) \<and> \<not> panicked r
    | Inr st4 \<Rightarrow> EvAPIUpload request \<in> set (c_events st4))"
  by (simp add: upload_api_def finish_def emit_def panicked_def split: option.splits)

lemma upload_ssh_emits:
  assumes "getDatastore env = Inr ds" and "ds_path ds = Some dsPath" and "dsPath \<noteq> []"
    and "\<not> (ct \<notin> set (ds_content ds) \<and> ds_storage ds = None)"
  shows "(case upload_ssh env d ct request st of
      Inl r \<Rightarrow> EvSSHUpload dsPath
                 (if ct = ''backup'' then request\<lparr>req_content_type := ''dump''\<rparr> else request)
               \<in> set (events r) \<and> \<not> panicked r
    | Inr st4 \<Rightarrow> EvSSHUpload dsPath
                 (if ct = ''backup'' then request\<lparr>req_content_type := ''dump''\<rparr> else request)
               \<in> set (c_events st4))"
  using assms
  by (auto simp: upload_ssh_def finish_def emit_def add_diags_def panicked_def Let_def
           split: option.splits)

lemma upload_emits:
  assumes "c_files st p = Inr content" and "upload_event env d ct name content = Some ev"
  shows "(case upload env d name (Some ct) p st of
      Inl r \<Rightarrow> ev \<in> set (events r) \<and> \<not> panicked r
    | Inr st4 \<Rightarrow> ev \<in> set (c_events st4))"
proof (cases "ct = ''iso'' \<or> ct = ''vztmpl'' \<or> ct = ''import''")
  case True
  let ?rq = "\<lparr>req_content_type = ct, req_file_name = name, req_file = content,
      req_mode = file_mode d\<rparr>"
  from True assms(2) have ev: "ev = EvAPIUpload ?rq"
    by (simp add: upload_event_def)
  from True assms(1) have u: "upload env d name (Some ct) p st =
      upload_api env d ?rq (emit (EvOpen p) st)"
    by (simp add: upload_def)
  show ?thesis
    unfolding ev u by (rule upload_api_emits)
next
  case False
  let ?rq = "\<lparr>req_content_type = ct, req_file_name = name, req_file = content,
      req_mode = file_mode d\<rparr>"
  from False assms(2) obtain ds dsPath where ds: "getDatastore env = Inr ds"
    "ds_path ds = Some dsPath" "dsPath \<noteq> []"
    "\<not> (ct \<notin> set (ds_content ds) \<and> ds_storage ds = None)"
    and ev: "ev = EvSSHUpload dsPath
      \<lparr>req_content_type = (if ct = ''backup'' then ''dump'' else ct),
       req_file_name = name, req_file = content, req_mode = file_mode d\<rparr>"
    by (auto simp: upload_event_def split: sum.splits option.splits if_splits)
  have ev': "ev = EvSSHUpload dsPath
      (if ct = ''backup'' then ?rq\<lparr>req_content_type := ''dump''\<rparr> else ?rq)"
    unfolding ev by simp
  from False assms(1) have u: "upload env d name (Some ct) p st =
      upload_ssh env d ct ?rq (emit (EvOpen p) st)"
    by (simp add: upload_def)
  show ?thesis
    unfolding ev' u by (rule upload_ssh_emits [OF ds])
qed

lemma read_loop_returns: "\<exists>ds. outcome (read_loop ra vs found diags evs d) = Return ds"
  by (induction ra vs found diags evs d rule: read_loop.induct)
     (auto simp: Let_def split: list.splits prod.splits)

lemma fileRead_returns: "\<exists>ds. outcome (fileRead gc listing ra d) = Return ds"
  by (auto simp: fileRead_def read_loop_returns split: option.splits sum.splits)

lemma read_back_events: "set (c_events st) \<subseteq> set (events (read_back env d st))"
  using read_back_ok [of st env d] by (simp add: ends_keeping_def starts_with_set)

lemma read_back_returns:
  assumes "fileGetSourceFileName (parseURI env) d = Inr name"
    and "fst (fileGetContentType (lowerUnicode env) (ctValidator env) (minImport env)
               (version2 env) d) = Some ct"
  shows "\<not> panicked (read_back env d st)"
proof -
  obtain di where f: "fileGetContentType (lowerUnicode env) (ctValidator env) (minImport env)
      (version2 env) d = (Some ct, di)"
    using assms(2) by (cases "fileGetContentType (lowerUnicode env) (ctValidator env)
      (minImport env) (version2 env) d") simp
  from fileRead_returns obtain rd where
    "outcome (fileRead (getClient2 env) (listing2 env) (readFileAttrs env)
       (d\<lparr>res_id := String \<lparr>datastoreID = datastore_id d, contentType = ct,
                            fileName = name\<rparr>\<rparr>)) = Return rd" by blast
  with assms(1) f show ?thesis
    by (simp add: read_back_def panicked_def finish_def emit_def Let_def)
qed

lemma collision_loop_pass:
  assumes "ow \<or> \<not> list_ex (same_named name) files"
  shows "\<exists>diags. collision_loop ow name files dg = Inr diags \<and>
     HasError diags = HasError dg"
proof (cases "list_ex (same_named name) files")
  case False
  then show ?thesis by (simp add: collision_loop_none)
next
  case True
  with assms have "ow" by simp
  then show ?thesis by (simp add: collision_loop_overwrite overwrite_warnings_def)
qed

lemma initial_state_quiet: "quiet (initial_state env diags)"
  by (simp add: quiet_def uploaded_def initial_state_def)

lemma download_ready:
  assumes "source_file d = b # bs" and "source_fetched env d p content"
    and "\<not> HasError (c_diags st)" and "c_files st = openFile env"
  shows "\<exists>st1. download env d b st = Inr (st1, p) \<and> c_files st1 p = Inr content \<and>
     \<not> HasError (c_diags st1)"
  using assms
  by (auto simp: source_fetched_def download_def emit_def add_diags_def FromErr_def Let_def)

lemma verify_checksum_mismatch:
  assumes "sf_checksum b \<noteq> []" and "c_files st p = Inr content"
    and "hashCopy env = None" and "hashClose env = None" and "\<not> HasError (c_diags st)"
    and "sf_checksum b \<noteq> hex_lower (sha256 env content)"
  shows "verify_checksum env d b p st =
     Inl \<lparr>outcome = Return [Diag Error (checksum_mismatch (hex_lower (sha256 env content))
                                          (sf_checksum b))],
          events = c_events st @ [EvOpen p] @ c_defers st, rdata = d\<rparr>"
  using assms
  by (simp add: verify_checksum_def finish_def emit_def add_diags_def FromErr_def Errorf_def)

lemma verify_checksum_ready:
  assumes "checksum_ok env b content" and "c_files st p = Inr content"
    and "\<not> HasError (c_diags st)"
  shows "\<exists>st2. verify_checksum env d b p st = Inr st2 \<and> c_files st2 = c_files st \<and>
     \<not> HasError (c_diags st2)"
  using assms
  by (auto simp: checksum_ok_def verify_checksum_def emit_def add_diags_def FromErr_def)

lemma file_stage_mismatch:
  assumes "source_file d = b # bs" and "source_fetched env d p content"
    and "sf_checksum b \<noteq> []" and "hashCopy env = None" and "hashClose env = None"
    and "sf_checksum b \<noteq> hex_lower (sha256 env content)"
    and "\<not> HasError (c_diags st)" and "c_files st = openFile env" and "quiet st"
  shows "\<exists>r. file_stage env d st = Inl r \<and>
     outcome r = Return [Diag Error (checksum_mismatch (hex_lower (sha256 env content))
                                       (sf_checksum b))] \<and>
     rdata r = d \<and> \<not> uploaded (events r) \<and> EvOpen p \<in> set (events r)"
proof -
  from download_ready [OF assms(1,2,7,8)] obtain st1 where
    s: "download env d b st = Inr (st1, p)" "c_files st1 p = Inr content"
       "\<not> HasError (c_diags st1)" by blast
  from download_ok [of st env d b] s(1) assms(9) have q: "quiet st1"
    by (simp add: stage_ok_def grows_def)
  note v = verify_checksum_mismatch [OF assms(3) s(2) assms(4,5) s(3) assms(6), of d]
  from q show ?thesis
    by (simp add: file_stage_def assms(1) s(1) v quiet_def uploaded_def)
qed

lemma file_stage_ready:
  assumes "source_file d = b # bs" and "source_fetched env d p content"
    and "checksum_ok env b content"
    and "\<not> HasError (c_diags st)" and "c_files st = openFile env"
  shows "\<exists>st2. file_stage env d st = Inr (st2, p) \<and> c_files st2 p = Inr content"
proof -
  from download_ready [OF assms(1,2,4,5)] obtain st1 where
    s: "download env d b st = Inr (st1, p)" "c_files st1 p = Inr content"
       "\<not> HasError (c_diags st1)" by blast
  from verify_checksum_ready [OF assms(3) s(2,3), where d = d] obtain st2 where
    v: "verify_checksum env d b p st1 = Inr st2" "c_files st2 = c_files st1" by blast
  then show ?thesis
    by (simp add: file_stage_def assms(1) s(1,2))
qed

lemma write_raw_ready:
  assumes "resize_raw r = Inr content" and "createTemp env ''raw'' = Inr p"
    and "rawCopy env = None" and "rawClose env = None" and "\<not> HasError (c_diags st)"
  shows "\<exists>st3. write_raw env d r st = Inr (st3, p) \<and> c_files st3 p = Inr content \<and>
     EvWriteTemp p \<in> set (c_events st3)"
  using assms by (simp add: write_raw_def emit_def add_diags_def FromErr_def)

lemma stages_ready:
  assumes "source_ready env d p content"
    and "\<not> HasError (c_diags st)" and "c_files st = openFile env"
  shows "\<exists>st2 q st3. file_stage env d st = Inr (st2, q) \<and>
     raw_stage env d st2 q = Inr (st3, p) \<and> c_files st3 p = Inr content"
proof (cases "source_file d")
  case Nil
  with assms(1) obtain r rs where r: "source_raw d = r # rs" "resize_raw r = Inr content"
    "createTemp env ''raw'' = Inr p" "rawCopy env = None" "rawClose env = None"
    by (auto simp: source_ready_def split: list.splits)
  from write_raw_ready [OF r(2-5) assms(2), where d = d] Nil r(1) show ?thesis
    by (auto simp: file_stage_def raw_stage_def)
next
  case (Cons b bs)
  with assms(1) have f: "source_fetched env d p content" "checksum_ok env b content"
    by (simp_all add: source_ready_def)
  from f(1) Cons have n: "source_raw d = []" by (simp add: source_fetched_def)
  from file_stage_ready [OF Cons f assms(2,3)] n show ?thesis
    by (auto simp: raw_stage_def)
qed

lemma source_ready_one:
  "source_ready env d p content \<Longrightarrow> \<not> (source_file d \<noteq> [] \<and> source_raw d \<noteq> [])"
  by (auto simp: source_ready_def source_fetched_def split: list.splits)

lemma create_from_sources_uploads:
  assumes "source_ready env d p content"
    and "\<not> HasError (c_diags st)" and "c_files st = openFile env"
    and "upload_event env d ct name content = Some ev"
  shows "ev \<in> set (events (create_from_sources env d name (Some ct) st))"
    and "fileGetSourceFileName (parseURI env) d = Inr name' \<Longrightarrow>
         fst (fileGetContentType (lowerUnicode env) (ctValidator env) (minImport env)
                (version2 env) d) = Some ct' \<Longrightarrow>
         \<not> panicked (create_from_sources env d name (Some ct) st)"
proof -
  from stages_ready [OF assms(1-3)] obtain st2 q st3 where
    s: "file_stage env d st = Inr (st2, q)" "raw_stage env d st2 q = Inr (st3, p)"
       "c_files st3 p = Inr content" by blast
  have o: "(if source_file d \<noteq> [] \<and> source_raw d \<noteq> []
             then add_diags (Errorf conflicting_source) st else st) = st"
    by (rule if_not_P) (rule source_ready_one [OF assms(1)])
  have c: "create_from_sources env d name (Some ct) st =
      (case upload env d name (Some ct) p st3 of Inl r \<Rightarrow> r | Inr st4 \<Rightarrow> read_back env d st4)"
    using assms(2) unfolding create_from_sources_def o by (simp add: s)
  note u = upload_emits [OF s(3) assms(4)]
  show "ev \<in> set (events (create_from_sources env d name (Some ct) st))"
  proof (cases "upload env d name (Some ct) p st3")
    case (Inl r)
    with u c show ?thesis by simp
  next
    case (Inr st4)
    with u c read_back_events [of st4 env d] show ?thesis by auto
  qed
  assume "fileGetSourceFileName (parseURI env) d = Inr name'"
    and "fst (fileGetContentType (lowerUnicode env) (ctValidator env) (minImport env)
                (version2 env) d) = Some ct'"
  note rb = read_back_returns [OF this]
  show "\<not> panicked (create_from_sources env d name (Some ct) st)"
  proof (cases "upload env d name (Some ct) p st3")
    case (Inl r)
    with u c show ?thesis by simp
  next
    case (Inr st4)
    with c rb [of st4] show ?thesis by simp
  qed
qed

lemma create_uploads:
  assumes N: "fileGetSourceFileName (parseURI env) d = Inr name" and G: "getClient env = None"
    and L: "listing1 env = Inr files"
    and C: "get_overwrite d \<or> \<not> list_ex (same_named name) files"
    and T: "fst (fileGetContentType (lowerUnicode env) (ctValidator env) (minImport env)
                   (version1 env) d) = Some ct"
    and E: "\<not> HasError (snd (fileGetContentType (lowerUnicode env) (ctValidator env)
                   (minImport env) (version1 env) d))"
    and R: "source_ready env d p content"
    and U: "upload_event env d ct name content = Some ev"
  shows "ev \<in> set (events (fileCreate env d))"
    and "uploaded (events (fileCreate env d))"
    and "version2 env = version1 env \<Longrightarrow> \<exists>ds. outcome (fileCreate env d) = Return ds"
proof -
  let ?dg = "snd (fileGetContentType (lowerUnicode env) (ctValidator env) (minImport env)
                   (version1 env) d)"
  from collision_loop_pass [OF C, of ?dg] E obtain diags where
    c: "collision_loop (get_overwrite d) name files ?dg = Inr diags" "\<not> HasError diags"
    by auto
  have f: "fileCreate env d =
      create_from_sources env d name (Some ct) (initial_state env diags)"
    by (simp add: fileCreate_listed [OF N G L] c(1) T)
  have i: "\<not> HasError (c_diags (initial_state env diags))"
    "c_files (initial_state env diags) = openFile env"
    using c(2) by (simp_all add: initial_state_def)
  from create_from_sources_uploads(1) [OF R i U] f
  show e: "ev \<in> set (events (fileCreate env d))" by simp
  with upload_event_is_upload [OF U] show "uploaded (events (fileCreate env d))"
    by (auto simp: uploaded_def list_ex_iff)
  assume "version2 env = version1 env"
  with T have "fst (fileGetContentType (lowerUnicode env) (ctValidator env) (minImport env)
                   (version2 env) d) = Some ct" by simp
  from create_from_sources_uploads(2) [OF R i U N this] f
  show "\<exists>ds. outcome (fileCreate env d) = Return ds"
    by (cases "outcome (fileCreate env d)") (simp_all add: panicked_def)
qed

lemma create_checksum_mismatch:
  assumes N: "fileGetSourceFileName (parseURI env) d = Inr name" and G: "getClient env = None"
    and L: "listing1 env = Inr files"
    and C: "get_overwrite d \<or> \<not> list_ex (same_named name) files"
    and E: "\<not> HasError (snd (fileGetContentType (lowerUnicode env) (ctValidator env)
                   (minImport env) (version1 env) d))"
    and B: "source_file d = b # bs" and F: "source_fetched env d p content"
    and K: "sf_checksum b \<noteq> []" "hashCopy env = None" "hashClose env = None"
    and M: "sf_checksum b \<noteq> hex_lower (sha256 env content)"
  shows "outcome (fileCreate env d) =
       Return [Diag Error (checksum_mismatch (hex_lower (sha256 env content)) (sf_checksum b))]"
    and "rdata (fileCreate env d) = d"
    and "\<not> uploaded (events (fileCreate env d))"
    and "EvOpen p \<in> set (events (fileCreate env d))"
proof -
  let ?dg = "snd (fileGetContentType (lowerUnicode env) (ctValidator env) (minImport env)
                   (version1 env) d)"
  let ?ct = "fst (fileGetContentType (lowerUnicode env) (ctValidator env) (minImport env)
                   (version1 env) d)"
  from collision_loop_pass [OF C, of ?dg] E obtain diags where
    c: "collision_loop (get_overwrite d) name files ?dg = Inr diags" "\<not> HasError diags"
    by auto
  have f: "fileCreate env d = create_from_sources env d name ?ct (initial_state env diags)"
    by (simp add: fileCreate_listed [OF N G L] c(1))
  have i: "\<not> HasError (c_diags (initial_state env diags))"
    "c_files (initial_state env diags) = openFile env"
    using c(2) by (simp_all add: initial_state_def)
  from F B have n: "source_raw d = []" by (simp add: source_fetched_def)
  from file_stage_mismatch [OF B F K M i initial_state_quiet] obtain r where
    r: "file_stage env d (initial_state env diags) = Inl r"
       "outcome r = Return [Diag Error (checksum_mismatch (hex_lower (sha256 env content))
                                       (sf_checksum b))]"
       "rdata r = d" "\<not> uploaded (events r)" "EvOpen p \<in> set (events r)" by blast
  have "fileCreate env d = r"
    using i(1) by (simp add: f create_from_sources_def n r(1) Let_def)
  with r show "outcome (fileCreate env d) =
       Return [Diag Error (checksum_mismatch (hex_lower (sha256 env content)) (sf_checksum b))]"
    and "rdata (fileCreate env d) = d"
    and "\<not> uploaded (events (fileCreate env d))"
    and "EvOpen p \<in> set (events (fileCreate env d))" by simp_all
qed

lemma create_resize_too_large:
  assumes N: "fileGetSourceFileName (parseURI env) d = Inr name" and G: "getClient env = None"
    and L: "listing1 env = Inr files"
    and C: "get_overwrite d \<or> \<not> list_ex (same_named name) files"
    and E: "\<not> HasError (snd (fileGetContentType (lowerUnicode env) (ctValidator env)
                   (minImport env) (version1 env) d))"
    and B: "source_file d = []" and R: "source_raw d = r # rs"
    and Z: "resize_raw r = Inl msg"
  shows "fileCreate env d =
     \<lparr>outcome = Return [Diag Error (Text msg)], events = [EvVersion, EvListFiles], rdata = d\<rparr>"
proof -
  let ?dg = "snd (fileGetContentType (lowerUnicode env) (ctValidator env) (minImport env)
                   (version1 env) d)"
  let ?ct = "fst (fileGetContentType (lowerUnicode env) (ctValidator env) (minImport env)
                   (version1 env) d)"
  from collision_loop_pass [OF C, of ?dg] E obtain diags where
    c: "collision_loop (get_overwrite d) name files ?dg = Inr diags" "\<not> HasError diags"
    by auto
  have f: "fileCreate env d = create_from_sources env d name ?ct (initial_state env diags)"
    by (simp add: fileCreate_listed [OF N G L] c(1))
  have i: "\<not> HasError (c_diags (initial_state env diags))"
    using c(2) by (simp add: initial_state_def)
  show ?thesis
    using i
    by (simp add: f create_from_sources_def file_stage_def raw_stage_def write_raw_def B R Z
          Let_def finish_def Errorf_def initial_state_def)
qed

lemma overwrite_uploads:
  assumes N: "fileGetSourceFileName (parseURI env) d = Inr name" and G: "getClient env = None"
    and L: "listing1 env = Inr files" and O: "get_overwrite d"
    and T: "fst (fileGetContentType (lowerUnicode env) (ctValidator env) (minImport env)
                   (version1 env) d) = Some ct"
    and E: "\<not> HasError (snd (fileGetContentType (lowerUnicode env) (ctValidator env)
                   (minImport env) (version1 env) d))"
    and R: "source_ready env d p content"
    and U: "upload_event env d ct name content = Some ev"
  shows "ev \<in> set (events (fileCreate env d)) \<and> uploaded (events (fileCreate env d)) \<and>
     (version2 env = version1 env \<longrightarrow>
        (\<exists>ds. outcome (fileCreate env d) = Return ds \<and>
           (\<forall>f. f \<in> set files \<and> same_named name f \<longrightarrow>
              Diag Warning (ExistingFileOverwritten (VolumeID f)) \<in> set ds)))"
proof -
  from O have C: "get_overwrite d \<or> \<not> list_ex (same_named name) files" by simp
  note u = create_uploads [OF N G L C T E R U]
  have "\<exists>ds. outcome (fileCreate env d) = Return ds \<and>
           (\<forall>f. f \<in> set files \<and> same_named name f \<longrightarrow>
              Diag Warning (ExistingFileOverwritten (VolumeID f)) \<in> set ds)"
    if v: "version2 env = version1 env"
  proof -
    from u(3) [OF v] obtain ds where ds: "outcome (fileCreate env d) = Return ds" by blast
    with overwrite_proceeds(2) [OF N G L O _ _ u(2)]
    have "\<forall>f. f \<in> set files \<and> same_named name f \<longrightarrow>
              Diag Warning (ExistingFileOverwritten (VolumeID f)) \<in> set ds" by blast
    with ds show ?thesis by blast
  qed
  with u(1,2) show ?thesis by blast
qed


section \<open>Checksum of a file source\<close>

text \<open>
  C2, as stated, fails: the comparison is an equality of texts, and the computed text
  is in lower case. The empty file \<open>/srv/empty.iso\<close> has the digest
  \<open>e3b0\<dots>b855\<close>; with the same digest written in upper case as the expected
  checksum, the two agree as hexadecimal numbers and the create ends with the
  mismatch error.
\<close>

theorem checksum_upper_case_rejected:
  "map lower_byte ''E3B0C44298FC1C149AFBF4C8996FB92427AE41E4649B934CA495991B7852B855'' =
     hex_lower (sha256 (example_env [] []) []) \<and>
   openFile (example_env [] []) ''/srv/empty.iso'' = Inr [] \<and>
   outcome (fileCreate (example_env [] [])
      (file_resource ''/srv/empty.iso'' []
         ''E3B0C44298FC1C149AFBF4C8996FB92427AE41E4649B934CA495991B7852B855'')) =
     Return [Diag Error (Text (''the calculated SHA256 checksum \"e3b0c44298fc1c149afbf4c8996fb92427ae41e4649b934ca495991b7852b855\" does not match source checksum \"E3B0C44298FC1C149AFBF4C8996FB92427AE41E4649B934CA495991B7852B855\"''))]"
  by (simp add: create_defs example_defs Let_def sha256_empty_def hex_lower_def hex_digit_def
        byte_defs)

text \<open>
  C2, amended. Take a create that reaches its file source, the only source: the file name
  resolves, the client is there, the listing succeeds, no same-named file stops the
  create, the content type brings no error, and the source is at hand, the local file
  that opens or the copy of the URL downloaded to a temporary file. When the source
  carries a non-empty checksum, create opens that local file, computes its SHA-256
  digest and compares the expected checksum, as a text, with the digest in lower-case
  hexadecimal. With the digest read without error, every expected text that differs
  from it, also one that differs in letter case only, ends the create with the error
  that names the computed and the expected text, without an upload and with the
  resource data as it was; the expected text equal to it lets the create go on to the
  upload of the content that was checked.
\<close>

theorem checksum_exact_match:
  assumes "fileGetSourceFileName (parseURI env) d = Inr name" and "getClient env = None"
    and "listing1 env = Inr files"
    and "get_overwrite d \<or> \<not> list_ex (same_named name) files"
    and "\<not> HasError (snd (fileGetContentType (lowerUnicode env) (ctValidator env)
                   (minImport env) (version1 env) d))"
    and "source_file d = b # bs" and "sf_checksum b \<noteq> []"
    and "source_fetched env d p content"
    and "hashCopy env = None" and "hashClose env = None"
  shows
   "(sf_checksum b \<noteq> hex_lower (sha256 env content) \<longrightarrow>
       outcome (fileCreate env d) =
         Return [Diag Error
                  (Text (''the calculated SHA256 checksum \"'' @
                         hex_lower (sha256 env content) @
                         ''\" does not match source checksum \"'' @ sf_checksum b @ ''\"''))] \<and>
       rdata (fileCreate env d) = d \<and>
       \<not> uploaded (events (fileCreate env d)) \<and>
       EvOpen p \<in> set (events (fileCreate env d))) \<and>
    (sf_checksum b = hex_lower (sha256 env content) \<longrightarrow>
       (\<forall>ct ev.
          fst (fileGetContentType (lowerUnicode env) (ctValidator env) (minImport env)
                 (version1 env) d) = Some ct \<and>
          upload_event env d ct name content = Some ev \<longrightarrow>
          ev \<in> set (events (fileCreate env d))))"
proof (intro conjI impI allI)
  assume m: "sf_checksum b \<noteq> hex_lower (sha256 env content)"
  note c = create_checksum_mismatch [OF assms(1-6) assms(8) assms(7) assms(9,10) m]
  from c(1) show "outcome (fileCreate env d) =
         Return [Diag Error
                  (Text (''the calculated SHA256 checksum \"'' @
                         hex_lower (sha256 env content) @
                         ''\" does not match source checksum \"'' @ sf_checksum b @ ''\"''))]"
    by (simp add: checksum_mismatch_def)
  from c(2) show "rdata (fileCreate env d) = d" .
  from c(3) show "\<not> uploaded (events (fileCreate env d))" .
  from c(4) show "EvOpen p \<in> set (events (fileCreate env d))" .
next
  fix ct ev
  assume m: "sf_checksum b = hex_lower (sha256 env content)"
    and t: "fst (fileGetContentType (lowerUnicode env) (ctValidator env) (minImport env)
                 (version1 env) d) = Some ct \<and>
          upload_event env d ct name content = Some ev"
  from assms(6,8,9,10) m have r: "source_ready env d p content"
    by (simp add: source_ready_def checksum_ok_def)
  from create_uploads(1) [OF assms(1-4) _ assms(5) r] t
  show "ev \<in> set (events (fileCreate env d))" by blast
qed

theorem checksum_exact_match_witness:
  "EvAPIUpload \<lparr>req_content_type = ''iso'', req_file_name = ''empty.iso'', req_file = [],
                req_mode = []\<rparr>
     \<in> set (events (fileCreate (example_env [] uploaded_listing)
          (file_resource ''/srv/empty.iso'' []
             ''e3b0c44298fc1c149afbf4c8996fb92427ae41e4649b934ca495991b7852b855''))) \<and>
   outcome (fileCreate (example_env [] uploaded_listing)
      (file_resource ''/srv/empty.iso'' [] ''00'')) =
     Return [Diag Error (Text ''the calculated SHA256 checksum \"e3b0c44298fc1c149afbf4c8996fb92427ae41e4649b934ca495991b7852b855\" does not match source checksum \"00\"'')] \<and>
   outcome (fileCreate served_env (file_resource ''https://example.com/a.iso'' [] ''00'')) =
     Return [Diag Error (Text ''the calculated SHA256 checksum \"e3b0c44298fc1c149afbf4c8996fb92427ae41e4649b934ca495991b7852b855\" does not match source checksum \"00\"'')] \<and>
   EvOpen ''/tmp/download1'' \<in> set (events (fileCreate served_env
      (file_resource ''https://example.com/a.iso'' [] ''00'')))"
proof -
  let ?env = "example_env [] uploaded_listing"
  let ?sum = "''e3b0c44298fc1c149afbf4c8996fb92427ae41e4649b934ca495991b7852b855''"
  let ?good = "file_resource ''/srv/empty.iso'' [] ?sum"
  let ?bad = "file_resource ''/srv/empty.iso'' [] ''00''"
  let ?url = "file_resource ''https://example.com/a.iso'' [] ''00''"
  have n: "fileGetSourceFileName (parseURI ?env) (file_resource ''/srv/empty.iso'' [] cks) =
      Inr ''empty.iso''" for cks
    by (simp add: example_defs fileGetSourceFileName_def fileIsURL_def HasPrefix_def Base_def)
  have g: "getClient ?env = None" "listing1 ?env = Inr []"
    by (simp_all add: example_defs)
  have c: "get_overwrite d \<or> \<not> list_ex (same_named nm) []" for d nm
    by simp
  have t: "fileGetContentType (lowerUnicode ?env) (ctValidator ?env) (minImport ?env)
      (version1 ?env) (file_resource ''/srv/empty.iso'' [] cks) = (Some ''iso'', [])" for cks
    by (simp add: example_defs fileGetContentType_def content_source_path_def
          infer_content_type_def suffix_defs byte_defs)
  have e: "\<not> HasError (snd (fileGetContentType (lowerUnicode ?env) (ctValidator ?env)
      (minImport ?env) (version1 ?env) (file_resource ''/srv/empty.iso'' [] cks)))" for cks
    by (simp add: t)
  have b: "source_file (file_resource q [] cks) =
      \<lparr>sf_path = q, sf_changed = False, sf_checksum = cks,
        sf_file_name = [], sf_insecure = False, sf_min_tls = []\<rparr> # []" for q cks
    by (simp add: file_resource_def)
  have k: "sf_checksum \<lparr>sf_path = q, sf_changed = False, sf_checksum = ?sum,
        sf_file_name = [], sf_insecure = False, sf_min_tls = []\<rparr> \<noteq> []"
     "sf_checksum \<lparr>sf_path = q, sf_changed = False, sf_checksum = ''00'',
        sf_file_name = [], sf_insecure = False, sf_min_tls = []\<rparr> \<noteq> []" for q
    by simp_all
  have f: "source_fetched ?env (file_resource ''/srv/empty.iso'' [] cks) ''/srv/empty.iso'' []"
    for cks
    by (simp add: source_fetched_def fileIsURL_def HasPrefix_def example_defs)
  have h: "hashCopy ?env = None" "hashClose ?env = None"
    by (simp_all add: example_defs)
  have x: "hex_lower (sha256 ?env []) = ?sum" "hex_lower (sha256 served_env []) = ?sum"
    by (simp_all add: served_env_def example_defs sha256_empty_def hex_lower_def hex_digit_def)
  have u: "upload_event ?env ?good ''iso'' ''empty.iso'' [] =
      Some (EvAPIUpload \<lparr>req_content_type = ''iso'', req_file_name = ''empty.iso'',
                          req_file = [], req_mode = []\<rparr>)"
    by (simp add: upload_event_def file_resource_def)
  note good = checksum_exact_match [OF n g c e b k(1) f h, THEN conjunct2, rule_format]
  have 1: "EvAPIUpload \<lparr>req_content_type = ''iso'', req_file_name = ''empty.iso'',
                req_file = [], req_mode = []\<rparr> \<in> set (events (fileCreate ?env ?good))"
    by (rule good [where ct = "''iso''"]) (simp_all add: x t u)
  note bad = checksum_exact_match [OF n g c e b k(2) f h, THEN conjunct1, rule_format]
  have "outcome (fileCreate ?env ?bad) =
     Return [Diag Error (Text (''the calculated SHA256 checksum \"'' @
        hex_lower (sha256 ?env []) @ ''\" does not match source checksum \"'' @ ''00'' @ ''\"''))]"
    using bad [THEN conjunct1] by (simp add: x)
  then have 2: "outcome (fileCreate ?env ?bad) =
     Return [Diag Error (Text ''the calculated SHA256 checksum \"e3b0c44298fc1c149afbf4c8996fb92427ae41e4649b934ca495991b7852b855\" does not match source checksum \"00\"'')]"
    by (simp add: x)
  have un: "fileGetSourceFileName (parseURI served_env) ?url = Inr ''a.iso''"
    by (simp add: served_env_def example_defs fileGetSourceFileName_def fileIsURL_def
          HasPrefix_def last_segment_def)
  have ug: "getClient served_env = None" "listing1 served_env = Inr []"
    by (simp_all add: served_env_def example_defs)
  have ut: "fileGetContentType (lowerUnicode served_env) (ctValidator served_env)
      (minImport served_env) (version1 served_env) ?url = (Some ''iso'', [])"
    by (simp add: served_env_def example_defs fileGetContentType_def content_source_path_def
          infer_content_type_def suffix_defs byte_defs)
  have ue: "\<not> HasError (snd (fileGetContentType (lowerUnicode served_env)
      (ctValidator served_env) (minImport served_env) (version1 served_env) ?url))"
    by (simp add: ut)
  have uf: "source_fetched served_env ?url ''/tmp/download1'' []"
    by (simp add: source_fetched_def fileIsURL_def HasPrefix_def served_env_def example_defs)
  have uh: "hashCopy served_env = None" "hashClose served_env = None"
    by (simp_all add: served_env_def example_defs)
  note url = checksum_exact_match [OF un ug c ue b k(2) uf uh, THEN conjunct1, rule_format]
  have 3: "outcome (fileCreate served_env ?url) =
     Return [Diag Error (Text ''the calculated SHA256 checksum \"e3b0c44298fc1c149afbf4c8996fb92427ae41e4649b934ca495991b7852b855\" does not match source checksum \"00\"'')]"
    using url [THEN conjunct1] by (simp add: x)
  have 4: "EvOpen ''/tmp/download1'' \<in> set (events (fileCreate served_env ?url))"
    using url by (simp add: x)
  from 1 2 3 4 show ?thesis by blast
qed

section \<open>Resize of a raw source\<close>

lemma rune_count_ascii: "ascii s \<Longrightarrow> RuneCountInString s = length s"
  by (induction s) (auto simp: ascii_def rune_size_def)

lemma parsenum_snoc:
  "parsenum num (ds @ [dg]) =
     (case parsenum num ds of
        None \<Rightarrow> None
      | Some m \<Rightarrow> if m > 1000000 then None else Some (m * 10 + dg))"
  by (induction ds arbitrary: num) auto

lemma parsenum_decimal: "n < 10000000 \<Longrightarrow> parsenum 0 (decimal n) = Some n"
proof (induction n rule: decimal.induct)
  case (1 n)
  show ?case
  proof (cases "n < 10")
    case True
    then show ?thesis by simp
  next
    case False
    with 1 have "parsenum 0 (decimal (n div 10)) = Some (n div 10)" by simp
    moreover from 1(2) have "\<not> n div 10 > 1000000" by simp
    ultimately show ?thesis using False by (simp add: parsenum_snoc)
  qed
qed

lemma Sprintf_left_pads:
  assumes "0 < n" "n < 10000000" "ascii s"
  shows "Sprintf_left n s = s @ replicate (n - length s) (CHR '' '')"
  using assms by (simp add: Sprintf_left_def parsenum_decimal rune_count_ascii)

text \<open>
  C4, as stated, fails: a payload that is already of the requested size is not
  refused. The raw source \<open>abc\<close> with resize 3 is kept as it is and uploaded.
\<close>

theorem resize_to_same_size_accepted:
  "resize_raw \<lparr>raw_data = ''abc'', raw_file_name = ''ci.yaml'', raw_resize = 3\<rparr> = Inr ''abc'' \<and>
   outcome (fileCreate
      (example_env [] [\<lparr>VolumeID = ''local:snippets/ci.yaml'', ContentType = ''snippets''\<rparr>])
      (raw_resource ''abc'' ''ci.yaml'' 3)) = Return [] \<and>
   EvSSHUpload ''/var/lib/vz''
      \<lparr>req_content_type = ''snippets'', req_file_name = ''ci.yaml'', req_file = ''abc'',
       req_mode = []\<rparr>
     \<in> set (events (fileCreate
      (example_env [] [\<lparr>VolumeID = ''local:snippets/ci.yaml'', ContentType = ''snippets''\<rparr>])
      (raw_resource ''abc'' ''ci.yaml'' 3)))"
  by (simp add: create_defs example_defs Let_def Sprintf_left_def rune_size_def byte_defs)

text \<open>
  C4, amended. For a raw source with a resize greater than zero: a payload longer than
  the resize is refused with the cannot-resize error, before any temporary file is made
  (resize never truncates), and a create that reaches its raw source, the only source,
  returns that error with nothing done but the version call and the listing; a payload
  of at most that many bytes, in ASCII and with a resize below ten million, is padded on
  the right with spaces to exactly the resize (a payload of exactly that size is kept as
  it is), that is what the temporary file receives, and it is the content of the upload
  that the create makes.
\<close>

theorem resize_pads_or_fails:
  "(0 < raw_resize r \<and> raw_resize r < int (length (raw_data r)) \<longrightarrow>
      resize_raw r =
        Inl (''cannot resize '' @ show_int (int (length (raw_data r))) @ '' bytes to '' @
             show_int (raw_resize r) @ '' bytes'') \<and>
      write_raw env d r st =
        Inl \<lparr>outcome = Return [Diag Error
                 (Text (''cannot resize '' @ show_int (int (length (raw_data r))) @
                        '' bytes to '' @ show_int (raw_resize r) @ '' bytes''))],
             events = c_events st @ c_defers st, rdata = d\<rparr> \<and>
      (\<forall>name files rs.
         fileGetSourceFileName (parseURI env) d = Inr name \<and> getClient env = None \<and>
         listing1 env = Inr files \<and>
         (get_overwrite d \<or> \<not> list_ex (same_named name) files) \<and>
         \<not> HasError (snd (fileGetContentType (lowerUnicode env) (ctValidator env)
                            (minImport env) (version1 env) d)) \<and>
         source_file d = [] \<and> source_raw d = r # rs \<longrightarrow>
         fileCreate env d =
           \<lparr>outcome = Return [Diag Error
                 (Text (''cannot resize '' @ show_int (int (length (raw_data r))) @
                        '' bytes to '' @ show_int (raw_resize r) @ '' bytes''))],
             events = [EvVersion, EvListFiles], rdata = d\<rparr>)) \<and>
   (0 < raw_resize r \<and> int (length (raw_data r)) \<le> raw_resize r \<and>
    raw_resize r < 10000000 \<and> ascii (raw_data r) \<longrightarrow>
      resize_raw r =
        Inr (raw_data r @ replicate (nat (raw_resize r) - length (raw_data r)) (CHR '' '')) \<and>
      (\<forall>x. resize_raw r = Inr x \<longrightarrow> int (length x) = raw_resize r) \<and>
      (\<forall>t. createTemp env ''raw'' = Inr t \<and> rawCopy env = None \<and> rawClose env = None \<and>
           \<not> HasError (c_diags st) \<longrightarrow>
         (\<exists>st1. write_raw env d r st = Inr (st1, t) \<and>
            c_files st1 t =
              Inr (raw_data r @
                   replicate (nat (raw_resize r) - length (raw_data r)) (CHR '' '')))) \<and>
      (\<forall>name files rs t ct ev.
         fileGetSourceFileName (parseURI env) d = Inr name \<and> getClient env = None \<and>
         listing1 env = Inr files \<and>
         (get_overwrite d \<or> \<not> list_ex (same_named name) files) \<and>
         fst (fileGetContentType (lowerUnicode env) (ctValidator env) (minImport env)
                (version1 env) d) = Some ct \<and>
         \<not> HasError (snd (fileGetContentType (lowerUnicode env) (ctValidator env)
                            (minImport env) (version1 env) d)) \<and>
         source_file d = [] \<and> source_raw d = r # rs \<and>
         createTemp env ''raw'' = Inr t \<and> rawCopy env = None \<and> rawClose env = None \<and>
         upload_event env d ct name
           (raw_data r @ replicate (nat (raw_resize r) - length (raw_data r)) (CHR '' '')) =
           Some ev \<longrightarrow>
         ev \<in> set (events (fileCreate env d))))"
proof (intro conjI impI)
  assume a: "0 < raw_resize r \<and> raw_resize r < int (length (raw_data r))"
  then show e: "resize_raw r =
        Inl (''cannot resize '' @ show_int (int (length (raw_data r))) @ '' bytes to '' @
             show_int (raw_resize r) @ '' bytes'')"
    by (simp add: resize_raw_def)
  show "write_raw env d r st =
        Inl \<lparr>outcome = Return [Diag Error
                 (Text (''cannot resize '' @ show_int (int (length (raw_data r))) @
                        '' bytes to '' @ show_int (raw_resize r) @ '' bytes''))],
             events = c_events st @ c_defers st, rdata = d\<rparr>"
    by (simp add: write_raw_def e finish_def Errorf_def)
  show "\<forall>name files rs.
         fileGetSourceFileName (parseURI env) d = Inr name \<and> getClient env = None \<and>
         listing1 env = Inr files \<and>
         (get_overwrite d \<or> \<not> list_ex (same_named name) files) \<and>
         \<not> HasError (snd (fileGetContentType (lowerUnicode env) (ctValidator env)
                            (minImport env) (version1 env) d)) \<and>
         source_file d = [] \<and> source_raw d = r # rs \<longrightarrow>
         fileCreate env d =
           \<lparr>outcome = Return [Diag Error
                 (Text (''cannot resize '' @ show_int (int (length (raw_data r))) @
                        '' bytes to '' @ show_int (raw_resize r) @ '' bytes''))],
             events = [EvVersion, EvListFiles], rdata = d\<rparr>"
  proof (intro allI impI)
  fix name files rs
  assume c: "fileGetSourceFileName (parseURI env) d = Inr name \<and> getClient env = None \<and>
         listing1 env = Inr files \<and>
         (get_overwrite d \<or> \<not> list_ex (same_named name) files) \<and>
         \<not> HasError (snd (fileGetContentType (lowerUnicode env) (ctValidator env)
                            (minImport env) (version1 env) d)) \<and>
         source_file d = [] \<and> source_raw d = r # rs"
  then have N: "fileGetSourceFileName (parseURI env) d = Inr name"
    and G: "getClient env = None" and L: "listing1 env = Inr files"
    and C: "get_overwrite d \<or> \<not> list_ex (same_named name) files"
    and E: "\<not> HasError (snd (fileGetContentType (lowerUnicode env) (ctValidator env)
                            (minImport env) (version1 env) d))"
    and B: "source_file d = []" and R: "source_raw d = r # rs"
    by simp_all
  from create_resize_too_large [OF N G L C E B R e]
  show "fileCreate env d =
           \<lparr>outcome = Return [Diag Error
                 (Text (''cannot resize '' @ show_int (int (length (raw_data r))) @
                        '' bytes to '' @ show_int (raw_resize r) @ '' bytes''))],
             events = [EvVersion, EvListFiles], rdata = d\<rparr>" .
  qed
next
  assume a: "0 < raw_resize r \<and> int (length (raw_data r)) \<le> raw_resize r \<and>
    raw_resize r < 10000000 \<and> ascii (raw_data r)"
  then have "Sprintf_left (nat (raw_resize r)) (raw_data r) =
     raw_data r @ replicate (nat (raw_resize r) - length (raw_data r)) (CHR '' '')"
    by (intro Sprintf_left_pads) auto
  with a show p: "resize_raw r =
        Inr (raw_data r @ replicate (nat (raw_resize r) - length (raw_data r)) (CHR '' ''))"
    by (simp add: resize_raw_def)
  from a show "\<forall>x. resize_raw r = Inr x \<longrightarrow> int (length x) = raw_resize r"
    unfolding p by auto
  show "\<forall>t. createTemp env ''raw'' = Inr t \<and> rawCopy env = None \<and> rawClose env = None \<and>
           \<not> HasError (c_diags st) \<longrightarrow>
         (\<exists>st1. write_raw env d r st = Inr (st1, t) \<and>
            c_files st1 t =
              Inr (raw_data r @
                   replicate (nat (raw_resize r) - length (raw_data r)) (CHR '' '')))"
    by (simp add: write_raw_def p emit_def add_diags_def FromErr_def)
  show "\<forall>name files rs t ct ev.
         fileGetSourceFileName (parseURI env) d = Inr name \<and> getClient env = None \<and>
         listing1 env = Inr files \<and>
         (get_overwrite d \<or> \<not> list_ex (same_named name) files) \<and>
         fst (fileGetContentType (lowerUnicode env) (ctValidator env) (minImport env)
                (version1 env) d) = Some ct \<and>
         \<not> HasError (snd (fileGetContentType (lowerUnicode env) (ctValidator env)
                            (minImport env) (version1 env) d)) \<and>
         source_file d = [] \<and> source_raw d = r # rs \<and>
         createTemp env ''raw'' = Inr t \<and> rawCopy env = None \<and> rawClose env = None \<and>
         upload_event env d ct name
           (raw_data r @ replicate (nat (raw_resize r) - length (raw_data r)) (CHR '' '')) =
           Some ev \<longrightarrow>
         ev \<in> set (events (fileCreate env d))"
  proof (intro allI impI)
  fix name files rs t ct ev
  assume c: "fileGetSourceFileName (parseURI env) d = Inr name \<and> getClient env = None \<and>
         listing1 env = Inr files \<and>
         (get_overwrite d \<or> \<not> list_ex (same_named name) files) \<and>
         fst (fileGetContentType (lowerUnicode env) (ctValidator env) (minImport env)
                (version1 env) d) = Some ct \<and>
         \<not> HasError (snd (fileGetContentType (lowerUnicode env) (ctValidator env)
                            (minImport env) (version1 env) d)) \<and>
         source_file d = [] \<and> source_raw d = r # rs \<and>
         createTemp env ''raw'' = Inr t \<and> rawCopy env = None \<and> rawClose env = None \<and>
         upload_event env d ct name
           (raw_data r @ replicate (nat (raw_resize r) - length (raw_data r)) (CHR '' '')) =
           Some ev"
  then have N: "fileGetSourceFileName (parseURI env) d = Inr name"
    and G: "getClient env = None" and L: "listing1 env = Inr files"
    and C: "get_overwrite d \<or> \<not> list_ex (same_named name) files"
    and T: "fst (fileGetContentType (lowerUnicode env) (ctValidator env) (minImport env)
                (version1 env) d) = Some ct"
    and E: "\<not> HasError (snd (fileGetContentType (lowerUnicode env) (ctValidator env)
                            (minImport env) (version1 env) d))"
    and U: "upload_event env d ct name
           (raw_data r @ replicate (nat (raw_resize r) - length (raw_data r)) (CHR '' '')) =
           Some ev"
    by simp_all
  from c p have S: "source_ready env d t
      (raw_data r @ replicate (nat (raw_resize r) - length (raw_data r)) (CHR '' ''))"
    by (simp add: source_ready_def)
  from create_uploads(1) [OF N G L C T E S U]
  show "ev \<in> set (events (fileCreate env d))" .
  qed
qed

theorem resize_pads_or_fails_witness:
  "resize_raw \<lparr>raw_data = ''abc'', raw_file_name = ''ci.yaml'', raw_resize = 5\<rparr> =
     Inr ''abc  '' \<and>
   resize_raw \<lparr>raw_data = ''abc'', raw_file_name = ''ci.yaml'', raw_resize = 2\<rparr> =
     Inl ''cannot resize 3 bytes to 2 bytes'' \<and>
   fileCreate (example_env [] []) (raw_resource ''abc'' ''ci.yaml'' 2) =
     \<lparr>outcome = Return [Diag Error (Text ''cannot resize 3 bytes to 2 bytes'')],
      events = [EvVersion, EvListFiles], rdata = raw_resource ''abc'' ''ci.yaml'' 2\<rparr> \<and>
   EvSSHUpload ''/var/lib/vz''
      \<lparr>req_content_type = ''snippets'', req_file_name = ''ci.yaml'', req_file = ''abc  '',
       req_mode = []\<rparr>
     \<in> set (events (fileCreate (example_env [] []) (raw_resource ''abc'' ''ci.yaml'' 5)))"
proof -
  let ?env = "example_env [] []"
  let ?r5 = "\<lparr>raw_data = ''abc'', raw_file_name = ''ci.yaml'', raw_resize = 5\<rparr>"
  let ?r2 = "\<lparr>raw_data = ''abc'', raw_file_name = ''ci.yaml'', raw_resize = 2\<rparr>"
  have digits: "show_int 3 = ''3''" "show_int 2 = ''2''"
    by (simp_all add: show_int_def digit_char_def byte_defs)
  have spaces: "replicate 2 (CHR '' '') = ''  ''"
    by (simp add: numeral_2_eq_2)
  have asc: "ascii ''abc''"
    by (simp add: ascii_def)
  have n: "fileGetSourceFileName (parseURI ?env) (raw_resource ''abc'' ''ci.yaml'' k) =
      Inr ''ci.yaml''" for k
    by (simp add: example_defs fileGetSourceFileName_def)
  have g: "getClient ?env = None" "listing1 ?env = Inr []"
    by (simp_all add: example_defs)
  have t: "fileGetContentType (lowerUnicode ?env) (ctValidator ?env) (minImport ?env)
      (version1 ?env) (raw_resource ''abc'' ''ci.yaml'' k) = (Some ''snippets'', [])" for k
    by (simp add: example_defs fileGetContentType_def content_source_path_def
          infer_content_type_def suffix_defs byte_defs)
  have s: "source_file (raw_resource ''abc'' ''ci.yaml'' k) = []"
    "source_raw (raw_resource ''abc'' ''ci.yaml'' k) =
       [\<lparr>raw_data = ''abc'', raw_file_name = ''ci.yaml'', raw_resize = k\<rparr>]" for k
    by (simp_all add: raw_resource_def)
  have e: "createTemp ?env ''raw'' = Inr ''/tmp/raw1''" "rawCopy ?env = None"
    "rawClose ?env = None"
    by (simp_all add: example_defs)
  have u: "upload_event ?env (raw_resource ''abc'' ''ci.yaml'' 5) ''snippets'' ''ci.yaml''
      ''abc  '' =
      Some (EvSSHUpload ''/var/lib/vz''
        \<lparr>req_content_type = ''snippets'', req_file_name = ''ci.yaml'', req_file = ''abc  '',
         req_mode = []\<rparr>)"
    by (simp add: upload_event_def example_defs)
  note big = resize_pads_or_fails
      [where r = ?r2 and env = ?env and d = "raw_resource ''abc'' ''ci.yaml'' 2"
         and st = example_state, THEN conjunct1, rule_format]
  have b0: "0 < raw_resize ?r2 \<and> raw_resize ?r2 < int (length (raw_data ?r2))" by simp
  from big [OF b0, THEN conjunct1]
  have 2: "resize_raw ?r2 = Inl ''cannot resize 3 bytes to 2 bytes''"
    by (simp add: digits)
  from big [OF b0, THEN conjunct2, THEN conjunct2, rule_format,
      where name = "''ci.yaml''" and files = "[]" and rs = "[]"]
  have 3: "fileCreate ?env (raw_resource ''abc'' ''ci.yaml'' 2) =
     \<lparr>outcome = Return [Diag Error (Text ''cannot resize 3 bytes to 2 bytes'')],
      events = [EvVersion, EvListFiles], rdata = raw_resource ''abc'' ''ci.yaml'' 2\<rparr>"
    by (simp add: digits n g t s)
  note pad = resize_pads_or_fails
      [where r = ?r5 and env = ?env and d = "raw_resource ''abc'' ''ci.yaml'' 5"
         and st = example_state, THEN conjunct2, rule_format]
  have p0: "0 < raw_resize ?r5 \<and> int (length (raw_data ?r5)) \<le> raw_resize ?r5 \<and>
      raw_resize ?r5 < 10000000 \<and> ascii (raw_data ?r5)"
    by (simp add: asc)
  from pad [OF p0, THEN conjunct1]
  have 1: "resize_raw ?r5 = Inr ''abc  ''"
    by (simp add: spaces)
  from pad [OF p0, THEN conjunct2, THEN conjunct2, THEN conjunct2, rule_format,
      where name = "''ci.yaml''" and files = "[]" and rs = "[]" and t = "''/tmp/raw1''"
        and ct = "''snippets''"
        and ev = "EvSSHUpload ''/var/lib/vz''
          \<lparr>req_content_type = ''snippets'', req_file_name = ''ci.yaml'', req_file = ''abc  '',
           req_mode = []\<rparr>"]
  have 4: "EvSSHUpload ''/var/lib/vz''
      \<lparr>req_content_type = ''snippets'', req_file_name = ''ci.yaml'', req_file = ''abc  '',
       req_mode = []\<rparr>
     \<in> set (events (fileCreate ?env (raw_resource ''abc'' ''ci.yaml'' 5)))"
    by (simp add: spaces n g t s e u)
  from 1 2 3 4 show ?thesis by blast
qed

section \<open>Both sources configured\<close>

text \<open>
  C3, as stated, fails: the check of the two sources comes behind the version call and
  the listing of the backend, so the create has made two backend calls when it fails;
  and when a same-named file is listed and overwriting is refused, it fails with the
  already-exists error instead.
\<close>

theorem conflicting_sources_after_backend_calls:
  "source_file both_sources \<noteq> [] \<and> source_raw both_sources \<noteq> [] \<and>
   events (fileCreate (example_env [] []) both_sources) = [EvVersion, EvListFiles] \<and>
   outcome (fileCreate (example_env [] []) both_sources) =
     Return [Diag Error (Text ''please specify \"source_file.path\" or \"source_raw\" - not both'')] \<and>
   outcome (fileCreate (example_env uploaded_listing []) (both_sources\<lparr>overwrite := Some False\<rparr>)) =
     Return [Diag Error (FileAlreadyExists ''local:iso/empty.iso'')]"
  by (simp add: create_defs example_defs both_sources_def uploaded_listing_def initial_state_def
        byte_defs)

text \<open>
  C3, amended. For every desired state in which both the file source and the raw source
  are populated, create fails and leaves the resource data as it was, without a
  download, a temporary file or an upload: its only calls to the outside are the
  version call and the listing of the backend, which come before the check of the
  sources. When the file name resolves, the client is there, the listing succeeds and
  no same-named file stops the create, the diagnostics end with the error that asks
  for one source, not both.
\<close>

theorem conflicting_sources_rejected:
  assumes "source_file d \<noteq> []" and "source_raw d \<noteq> []"
  shows
   "(\<exists>ds. outcome (fileCreate env d) = Return ds \<and> HasError ds) \<and>
    \<not> list_ex is_transfer (events (fileCreate env d)) \<and>
    (events (fileCreate env d) = [] \<or> events (fileCreate env d) = [EvVersion, EvListFiles]) \<and>
    rdata (fileCreate env d) = d \<and>
    (\<forall>name files.
       fileGetSourceFileName (parseURI env) d = Inr name \<and> getClient env = None \<and>
       listing1 env = Inr files \<and> (get_overwrite d \<or> \<not> list_ex (same_named name) files) \<longrightarrow>
       events (fileCreate env d) = [EvVersion, EvListFiles] \<and>
       (\<exists>ds. outcome (fileCreate env d) =
          Return (ds @ [Diag Error
            (Text ''please specify \"source_file.path\" or \"source_raw\" - not both'')])))"
proof -
  note stop = both_sources_stop [OF assms, of env]
  have 1: "(\<exists>ds. outcome (fileCreate env d) = Return ds \<and> HasError ds) \<and>
    \<not> list_ex is_transfer (events (fileCreate env d)) \<and>
    (events (fileCreate env d) = [] \<or> events (fileCreate env d) = [EvVersion, EvListFiles]) \<and>
    rdata (fileCreate env d) = d"
    by (auto simp: fileCreate_def stop initial_state_def HasError_def FromErr_def Errorf_def
             split: sum.splits option.splits prod.splits)
  have 2: "events (fileCreate env d) = [EvVersion, EvListFiles] \<and>
       (\<exists>ds. outcome (fileCreate env d) = Return (ds @ [Diag Error
            (Text ''please specify \"source_file.path\" or \"source_raw\" - not both'')]))"
    if N: "fileGetSourceFileName (parseURI env) d = Inr name" and G: "getClient env = None"
      and L: "listing1 env = Inr files"
      and O: "get_overwrite d \<or> \<not> list_ex (same_named name) files"
    for name files
  proof -
    from O have "\<exists>ds. collision_loop (get_overwrite d) name files
        (snd (fileGetContentType (lowerUnicode env) (ctValidator env) (minImport env) (version1 env) d)) = Inr ds"
      by (cases "get_overwrite d") (auto simp: collision_loop_overwrite collision_loop_none)
    then show ?thesis
      by (auto simp: fileCreate_listed [OF N G L] stop initial_state_def conflicting_source_def)
  qed
  from 1 2 show ?thesis by blast
qed

theorem conflicting_sources_rejected_witness:
  "\<not> list_ex is_transfer (events (fileCreate (example_env [] []) both_sources)) \<and>
   rdata (fileCreate (example_env [] []) both_sources) = both_sources \<and>
   events (fileCreate (example_env [] []) both_sources) = [EvVersion, EvListFiles]"
proof -
  have a: "source_file both_sources \<noteq> []" "source_raw both_sources \<noteq> []"
    by (simp_all add: both_sources_def example_defs)
  have n: "fileGetSourceFileName (parseURI (example_env [] [])) both_sources = Inr ''empty.iso''"
    by (simp add: both_sources_def example_defs fileGetSourceFileName_def fileIsURL_def
          HasPrefix_def Base_def)
  have g: "getClient (example_env [] []) = None" "listing1 (example_env [] []) = Inr []"
    by (simp_all add: example_defs)
  from conflicting_sources_rejected [OF a, of "example_env [] []"] n g
  show ?thesis by simp
qed

section \<open>A file of the same name\<close>

text \<open>
  C6. Create lists the files of the backend before any upload and compares the file
  name of each listed identifier with the name of the file to create. When the listing
  holds a same-named file: with overwriting refused, create returns the already-exists
  error that names the first such identifier, having done nothing but the version call
  and the listing; with overwriting allowed, create does not end with the
  already-exists error but runs as it does on the listing without the same-named
  files (the same events, so the same upload, the same resource data, the same
  success or failure), and when it has uploaded and returns, its diagnostics hold the
  warning that names each same-named identifier. With overwriting allowed, the content
  type determined without error and the source ready, create makes the upload call for
  the content of the source, and, the version call answering the second time as the
  first, it returns diagnostics that hold the warning for each same-named identifier.
\<close>

theorem name_collision_check:
  assumes "fileGetSourceFileName (parseURI env) d = Inr name" and "getClient env = None"
    and "listing1 env = Inr files" and "list_ex (same_named name) files"
  shows
   "(\<not> get_overwrite d \<longrightarrow>
       (\<exists>f. find (same_named name) files = Some f \<and>
          fileCreate env d =
            \<lparr>outcome = Return [Diag Error (FileAlreadyExists (VolumeID f))],
             events = [EvVersion, EvListFiles], rdata = d\<rparr>)) \<and>
    (get_overwrite d \<longrightarrow>
       run_sim (fileCreate env d)
         (fileCreate (env\<lparr>listing1 := Inr (filter (\<lambda>f. \<not> same_named name f) files)\<rparr>) d) \<and>
       (\<forall>v. outcome (fileCreate env d) \<noteq> Return [Diag Error (FileAlreadyExists v)]) \<and>
       (\<forall>f ds. f \<in> set files \<and> same_named name f \<and> uploaded (events (fileCreate env d)) \<and>
           outcome (fileCreate env d) = Return ds \<longrightarrow>
           Diag Warning (ExistingFileOverwritten (VolumeID f)) \<in> set ds) \<and>
       (\<forall>ct p content ev.
           fst (fileGetContentType (lowerUnicode env) (ctValidator env) (minImport env)
                  (version1 env) d) = Some ct \<and>
           \<not> HasError (snd (fileGetContentType (lowerUnicode env) (ctValidator env)
                              (minImport env) (version1 env) d)) \<and>
           source_ready env d p content \<and>
           upload_event env d ct name content = Some ev \<longrightarrow>
           ev \<in> set (events (fileCreate env d)) \<and> uploaded (events (fileCreate env d)) \<and>
           (version2 env = version1 env \<longrightarrow>
              (\<exists>ds. outcome (fileCreate env d) = Return ds \<and>
                 (\<forall>f. f \<in> set files \<and> same_named name f \<longrightarrow>
                    Diag Warning (ExistingFileOverwritten (VolumeID f)) \<in> set ds))))) \<and>
    (uploaded (events (fileCreate env d)) \<longrightarrow>
       starts_with [EvVersion, EvListFiles] (events (fileCreate env d)))"
proof (intro conjI impI)
  assume "\<not> get_overwrite d"
  with assms show "\<exists>f. find (same_named name) files = Some f \<and>
          fileCreate env d =
            \<lparr>outcome = Return [Diag Error (FileAlreadyExists (VolumeID f))],
             events = [EvVersion, EvListFiles], rdata = d\<rparr>"
    by (intro no_overwrite_stops)
next
  assume o: "get_overwrite d"
  from overwrite_proceeds(1) [OF assms(1-3) o]
  show "run_sim (fileCreate env d)
         (fileCreate (env\<lparr>listing1 := Inr (filter (\<lambda>f. \<not> same_named name f) files)\<rparr>) d)" .
  from overwrite_not_already_exists [OF assms(1-3) o assms(4)]
  show "\<forall>v. outcome (fileCreate env d) \<noteq> Return [Diag Error (FileAlreadyExists v)]"
    by blast
  from overwrite_proceeds(2) [OF assms(1-3) o]
  show "\<forall>f ds. f \<in> set files \<and> same_named name f \<and> uploaded (events (fileCreate env d)) \<and>
           outcome (fileCreate env d) = Return ds \<longrightarrow>
           Diag Warning (ExistingFileOverwritten (VolumeID f)) \<in> set ds"
    by blast
  show "\<forall>ct p content ev.
           fst (fileGetContentType (lowerUnicode env) (ctValidator env) (minImport env)
                  (version1 env) d) = Some ct \<and>
           \<not> HasError (snd (fileGetContentType (lowerUnicode env) (ctValidator env)
                              (minImport env) (version1 env) d)) \<and>
           source_ready env d p content \<and>
           upload_event env d ct name content = Some ev \<longrightarrow>
           ev \<in> set (events (fileCreate env d)) \<and> uploaded (events (fileCreate env d)) \<and>
           (version2 env = version1 env \<longrightarrow>
              (\<exists>ds. outcome (fileCreate env d) = Return ds \<and>
                 (\<forall>f. f \<in> set files \<and> same_named name f \<longrightarrow>
                    Diag Warning (ExistingFileOverwritten (VolumeID f)) \<in> set ds)))"
  proof (intro allI impI)
    fix ct p content ev
    assume "fst (fileGetContentType (lowerUnicode env) (ctValidator env) (minImport env)
                  (version1 env) d) = Some ct \<and>
           \<not> HasError (snd (fileGetContentType (lowerUnicode env) (ctValidator env)
                              (minImport env) (version1 env) d)) \<and>
           source_ready env d p content \<and>
           upload_event env d ct name content = Some ev"
    then have T: "fst (fileGetContentType (lowerUnicode env) (ctValidator env) (minImport env)
                  (version1 env) d) = Some ct"
      and E: "\<not> HasError (snd (fileGetContentType (lowerUnicode env) (ctValidator env)
                              (minImport env) (version1 env) d))"
      and R: "source_ready env d p content"
      and U: "upload_event env d ct name content = Some ev"
      by simp_all
    from overwrite_uploads [OF assms(1-3) o T E R U]
    show "ev \<in> set (events (fileCreate env d)) \<and> uploaded (events (fileCreate env d)) \<and>
           (version2 env = version1 env \<longrightarrow>
              (\<exists>ds. outcome (fileCreate env d) = Return ds \<and>
                 (\<forall>f. f \<in> set files \<and> same_named name f \<longrightarrow>
                    Diag Warning (ExistingFileOverwritten (VolumeID f)) \<in> set ds)))" .
  qed
next
  assume "uploaded (events (fileCreate env d))"
  with fileCreate_events_start [of env d]
  show "starts_with [EvVersion, EvListFiles] (events (fileCreate env d))"
    by (auto simp: uploaded_def)
qed

theorem name_collision_check_witness:
  "fileCreate (example_env same_name_listing uploaded_listing)
     ((file_resource ''/srv/empty.iso'' [] [])\<lparr>overwrite := Some False\<rparr>) =
   \<lparr>outcome = Return [Diag Error (FileAlreadyExists ''local:backup/empty.iso'')],
    events = [EvVersion, EvListFiles],
    rdata = (file_resource ''/srv/empty.iso'' [] [])\<lparr>overwrite := Some False\<rparr>\<rparr> \<and>
   EvAPIUpload \<lparr>req_content_type = ''iso'', req_file_name = ''empty.iso'', req_file = [],
                req_mode = []\<rparr>
     \<in> set (events (fileCreate (example_env same_name_listing uploaded_listing)
          ((file_resource ''/srv/empty.iso'' [] [])\<lparr>overwrite := Some True\<rparr>))) \<and>
   uploaded (events (fileCreate (example_env same_name_listing uploaded_listing)
     ((file_resource ''/srv/empty.iso'' [] [])\<lparr>overwrite := Some True\<rparr>))) \<and>
   (\<exists>ds. outcome (fileCreate (example_env same_name_listing uploaded_listing)
            ((file_resource ''/srv/empty.iso'' [] [])\<lparr>overwrite := Some True\<rparr>)) = Return ds \<and>
      Diag Warning (ExistingFileOverwritten ''local:backup/empty.iso'') \<in> set ds) \<and>
   starts_with [EvVersion, EvListFiles]
     (events (fileCreate (example_env same_name_listing uploaded_listing)
        ((file_resource ''/srv/empty.iso'' [] [])\<lparr>overwrite := Some True\<rparr>)))"
proof -
  let ?env = "example_env same_name_listing uploaded_listing"
  let ?no = "(file_resource ''/srv/empty.iso'' [] [])\<lparr>overwrite := Some False\<rparr>"
  let ?yes = "(file_resource ''/srv/empty.iso'' [] [])\<lparr>overwrite := Some True\<rparr>"
  let ?f = "\<lparr>VolumeID = ''local:backup/empty.iso'', ContentType = ''backup''\<rparr>"
  let ?ev = "EvAPIUpload \<lparr>req_content_type = ''iso'', req_file_name = ''empty.iso'',
      req_file = [], req_mode = []\<rparr>"
  have n: "fileGetSourceFileName (parseURI ?env) ?no = Inr ''empty.iso''"
    "fileGetSourceFileName (parseURI ?env) ?yes = Inr ''empty.iso''"
    by (simp_all add: example_defs fileGetSourceFileName_def fileIsURL_def HasPrefix_def
          Base_def)
  have g: "getClient ?env = None" "listing1 ?env = Inr same_name_listing"
    by (simp_all add: example_defs)
  have s: "list_ex (same_named ''empty.iso'') same_name_listing"
    by (simp add: same_name_listing_def same_named_def fileParseVolumeID_def SplitN2_def)
  have f: "find (same_named ''empty.iso'') same_name_listing = Some ?f"
    by (simp add: same_name_listing_def same_named_def fileParseVolumeID_def SplitN2_def)
  have m: "?f \<in> set same_name_listing \<and> same_named ''empty.iso'' ?f"
    by (simp add: same_name_listing_def same_named_def fileParseVolumeID_def SplitN2_def)
  have o: "\<not> get_overwrite ?no" "get_overwrite ?yes"
    by (simp_all add: get_overwrite_def example_defs)
  have t: "fileGetContentType (lowerUnicode ?env) (ctValidator ?env) (minImport ?env)
      (version1 ?env) ?yes = (Some ''iso'', [])"
    by (simp add: example_defs fileGetContentType_def content_source_path_def
          infer_content_type_def suffix_defs byte_defs)
  have r: "source_ready ?env ?yes ''/srv/empty.iso'' []"
    by (simp add: source_ready_def source_fetched_def checksum_ok_def fileIsURL_def
          HasPrefix_def example_defs)
  have u: "upload_event ?env ?yes ''iso'' ''empty.iso'' [] = Some ?ev"
    by (simp add: upload_event_def file_resource_def)
  have v: "version2 ?env = version1 ?env"
    by (simp add: example_defs)
  have h: "fst (fileGetContentType (lowerUnicode ?env) (ctValidator ?env) (minImport ?env)
                  (version1 ?env) ?yes) = Some ''iso'' \<and>
           \<not> HasError (snd (fileGetContentType (lowerUnicode ?env) (ctValidator ?env)
                              (minImport ?env) (version1 ?env) ?yes)) \<and>
           source_ready ?env ?yes ''/srv/empty.iso'' [] \<and>
           upload_event ?env ?yes ''iso'' ''empty.iso'' [] = Some ?ev"
    by (simp add: t r u)
  from name_collision_check [OF n(1) g s] o(1) f
  have 1: "fileCreate ?env ?no =
      \<lparr>outcome = Return [Diag Error (FileAlreadyExists ''local:backup/empty.iso'')],
       events = [EvVersion, EvListFiles], rdata = ?no\<rparr>"
    by auto
  note yes = name_collision_check [OF n(2) g s, THEN conjunct2, THEN conjunct1, rule_format,
      OF o(2), THEN conjunct2, THEN conjunct2, THEN conjunct2, rule_format, OF h]
  from yes have 2: "?ev \<in> set (events (fileCreate ?env ?yes))" by (rule conjunct1)
  from yes have 3: "uploaded (events (fileCreate ?env ?yes))" by blast
  from yes [THEN conjunct2, THEN conjunct2, rule_format, OF v] m
  have 4: "\<exists>ds. outcome (fileCreate ?env ?yes) = Return ds \<and>
      Diag Warning (ExistingFileOverwritten ''local:backup/empty.iso'') \<in> set ds"
    by auto
  from name_collision_check [OF n(2) g s, THEN conjunct2, THEN conjunct2, rule_format, OF 3]
  have 5: "starts_with [EvVersion, EvListFiles] (events (fileCreate ?env ?yes))" .
  from 1 2 3 4 5 show ?thesis by blast
qed

section \<open>The default of the overwrite flag\<close>

text \<open>
  C10. The overwrite flag is true when the configuration leaves it out. A create whose
  desired state leaves it out and whose file name appears in the listing of the backend
  does not end with the already-exists error: it runs as it does on the listing
  without the same-named files, so with the same upload, and when it has uploaded and
  returns, its diagnostics hold the warning that names each same-named identifier. With
  the content type determined without error and the source ready, it makes the upload
  call for the content of the source, and, the version call answering the second time
  as the first, it returns diagnostics that hold the warning for each same-named
  identifier.
\<close>

theorem overwrite_defaults_to_true:
  assumes "overwrite d = None"
    and "fileGetSourceFileName (parseURI env) d = Inr name" and "getClient env = None"
    and "listing1 env = Inr files" and "list_ex (same_named name) files"
  shows
   "get_overwrite d \<and>
    (\<forall>v. outcome (fileCreate env d) \<noteq> Return [Diag Error (FileAlreadyExists v)]) \<and>
    run_sim (fileCreate env d)
      (fileCreate (env\<lparr>listing1 := Inr (filter (\<lambda>f. \<not> same_named name f) files)\<rparr>) d) \<and>
    (\<forall>f ds. f \<in> set files \<and> same_named name f \<and> uploaded (events (fileCreate env d)) \<and>
        outcome (fileCreate env d) = Return ds \<longrightarrow>
        Diag Warning (ExistingFileOverwritten (VolumeID f)) \<in> set ds) \<and>
    (\<forall>ct p content ev.
        fst (fileGetContentType (lowerUnicode env) (ctValidator env) (minImport env)
               (version1 env) d) = Some ct \<and>
        \<not> HasError (snd (fileGetContentType (lowerUnicode env) (ctValidator env)
                           (minImport env) (version1 env) d)) \<and>
        source_ready env d p content \<and>
        upload_event env d ct name content = Some ev \<longrightarrow>
        ev \<in> set (events (fileCreate env d)) \<and> uploaded (events (fileCreate env d)) \<and>
        (version2 env = version1 env \<longrightarrow>
           (\<exists>ds. outcome (fileCreate env d) = Return ds \<and>
              (\<forall>f. f \<in> set files \<and> same_named name f \<longrightarrow>
                 Diag Warning (ExistingFileOverwritten (VolumeID f)) \<in> set ds))))"
proof -
  from assms(1) have o: "get_overwrite d"
    by (simp add: get_overwrite_def dvResourceVirtualEnvironmentFileOverwrite_def)
  have u: "\<forall>ct p content ev.
        fst (fileGetContentType (lowerUnicode env) (ctValidator env) (minImport env)
               (version1 env) d) = Some ct \<and>
        \<not> HasError (snd (fileGetContentType (lowerUnicode env) (ctValidator env)
                           (minImport env) (version1 env) d)) \<and>
        source_ready env d p content \<and>
        upload_event env d ct name content = Some ev \<longrightarrow>
        ev \<in> set (events (fileCreate env d)) \<and> uploaded (events (fileCreate env d)) \<and>
        (version2 env = version1 env \<longrightarrow>
           (\<exists>ds. outcome (fileCreate env d) = Return ds \<and>
              (\<forall>f. f \<in> set files \<and> same_named name f \<longrightarrow>
                 Diag Warning (ExistingFileOverwritten (VolumeID f)) \<in> set ds)))"
  proof (intro allI impI)
    fix ct p content ev
    assume "fst (fileGetContentType (lowerUnicode env) (ctValidator env) (minImport env)
               (version1 env) d) = Some ct \<and>
        \<not> HasError (snd (fileGetContentType (lowerUnicode env) (ctValidator env)
                           (minImport env) (version1 env) d)) \<and>
        source_ready env d p content \<and>
        upload_event env d ct name content = Some ev"
    then have T: "fst (fileGetContentType (lowerUnicode env) (ctValidator env) (minImport env)
                  (version1 env) d) = Some ct"
      and E: "\<not> HasError (snd (fileGetContentType (lowerUnicode env) (ctValidator env)
                              (minImport env) (version1 env) d))"
      and R: "source_ready env d p content"
      and U: "upload_event env d ct name content = Some ev"
      by simp_all
    from overwrite_uploads [OF assms(2-4) o T E R U]
    show "ev \<in> set (events (fileCreate env d)) \<and> uploaded (events (fileCreate env d)) \<and>
        (version2 env = version1 env \<longrightarrow>
           (\<exists>ds. outcome (fileCreate env d) = Return ds \<and>
              (\<forall>f. f \<in> set files \<and> same_named name f \<longrightarrow>
                 Diag Warning (ExistingFileOverwritten (VolumeID f)) \<in> set ds)))" .
  qed
  from o overwrite_proceeds [OF assms(2-4) o]
    overwrite_not_already_exists [OF assms(2-4) o assms(5)]
  have "get_overwrite d \<and>
    (\<forall>v. outcome (fileCreate env d) \<noteq> Return [Diag Error (FileAlreadyExists v)]) \<and>
    run_sim (fileCreate env d)
      (fileCreate (env\<lparr>listing1 := Inr (filter (\<lambda>f. \<not> same_named name f) files)\<rparr>) d) \<and>
    (\<forall>f ds. f \<in> set files \<and> same_named name f \<and> uploaded (events (fileCreate env d)) \<and>
        outcome (fileCreate env d) = Return ds \<longrightarrow>
        Diag Warning (ExistingFileOverwritten (VolumeID f)) \<in> set ds)"
    by blast
  with u show ?thesis by blast
qed

theorem overwrite_defaults_to_true_witness:
  "get_overwrite (file_resource ''/srv/empty.iso'' [] []) \<and>
   EvAPIUpload \<lparr>req_content_type = ''iso'', req_file_name = ''empty.iso'', req_file = [],
                req_mode = []\<rparr>
     \<in> set (events (fileCreate (example_env same_name_listing uploaded_listing)
          (file_resource ''/srv/empty.iso'' [] []))) \<and>
   uploaded (events (fileCreate (example_env same_name_listing uploaded_listing)
     (file_resource ''/srv/empty.iso'' [] []))) \<and>
   outcome (fileCreate (example_env same_name_listing uploaded_listing)
     (file_resource ''/srv/empty.iso'' [] [])) =
     Return [Diag Warning (ExistingFileOverwritten ''local:backup/empty.iso'')] \<and>
   (\<exists>ds. outcome (fileCreate (example_env same_name_listing uploaded_listing)
            (file_resource ''/srv/empty.iso'' [] [])) = Return ds \<and>
      Diag Warning (ExistingFileOverwritten ''local:backup/empty.iso'') \<in> set ds)"
proof -
  let ?env = "example_env same_name_listing uploaded_listing"
  let ?d = "file_resource ''/srv/empty.iso'' [] []"
  let ?f = "\<lparr>VolumeID = ''local:backup/empty.iso'', ContentType = ''backup''\<rparr>"
  let ?ev = "EvAPIUpload \<lparr>req_content_type = ''iso'', req_file_name = ''empty.iso'',
      req_file = [], req_mode = []\<rparr>"
  have a: "overwrite ?d = None" by (simp add: example_defs)
  have n: "fileGetSourceFileName (parseURI ?env) ?d = Inr ''empty.iso''"
    by (simp add: example_defs fileGetSourceFileName_def fileIsURL_def HasPrefix_def Base_def)
  have g: "getClient ?env = None" "listing1 ?env = Inr same_name_listing"
    by (simp_all add: example_defs)
  have s: "list_ex (same_named ''empty.iso'') same_name_listing"
    by (simp add: same_name_listing_def same_named_def fileParseVolumeID_def SplitN2_def)
  have m: "?f \<in> set same_name_listing \<and> same_named ''empty.iso'' ?f"
    by (simp add: same_name_listing_def same_named_def fileParseVolumeID_def SplitN2_def)
  have t: "fileGetContentType (lowerUnicode ?env) (ctValidator ?env) (minImport ?env)
      (version1 ?env) ?d = (Some ''iso'', [])"
    by (simp add: example_defs fileGetContentType_def content_source_path_def
          infer_content_type_def suffix_defs byte_defs)
  have r: "source_ready ?env ?d ''/srv/empty.iso'' []"
    by (simp add: source_ready_def source_fetched_def checksum_ok_def fileIsURL_def
          HasPrefix_def example_defs)
  have u: "upload_event ?env ?d ''iso'' ''empty.iso'' [] = Some ?ev"
    by (simp add: upload_event_def file_resource_def)
  have v: "version2 ?env = version1 ?env"
    by (simp add: example_defs)
  have h: "fst (fileGetContentType (lowerUnicode ?env) (ctValidator ?env) (minImport ?env)
                  (version1 ?env) ?d) = Some ''iso'' \<and>
           \<not> HasError (snd (fileGetContentType (lowerUnicode ?env) (ctValidator ?env)
                              (minImport ?env) (version1 ?env) ?d)) \<and>
           source_ready ?env ?d ''/srv/empty.iso'' [] \<and>
           upload_event ?env ?d ''iso'' ''empty.iso'' [] = Some ?ev"
    by (simp add: t r u)
  have w: "outcome (fileCreate ?env ?d) =
      Return [Diag Warning (ExistingFileOverwritten ''local:backup/empty.iso'')]"
    by (simp add: create_defs example_defs same_name_listing_def uploaded_listing_def
          byte_defs Let_def)
  note th = overwrite_defaults_to_true [OF a n g s]
  from th have 1: "get_overwrite ?d" by (rule conjunct1)
  note up = th [THEN conjunct2, THEN conjunct2, THEN conjunct2, THEN conjunct2, rule_format,
      OF h]
  from up have 2: "?ev \<in> set (events (fileCreate ?env ?d))" by (rule conjunct1)
  from up have 3: "uploaded (events (fileCreate ?env ?d))" by blast
  from up [THEN conjunct2, THEN conjunct2, rule_format, OF v] m
  have 4: "\<exists>ds. outcome (fileCreate ?env ?d) = Return ds \<and>
      Diag Warning (ExistingFileOverwritten ''local:backup/empty.iso'') \<in> set ds"
    by auto
  from 1 2 3 w 4 show ?thesis by blast
qed

end
